theory Spec2Isabelle
  imports Complex_Main "HOL-Library.Product_Lexorder" "HOL-Library.List_Lexorder"
    "HOL-Library.Char_ord"
begin

section \<open>Conventions of the embedding\<close>

text \<open>
  The repository is Python. Its floats are modelled as \<^typ>\<open>real\<close> (comparison, \<open>min\<close>,
  \<open>max\<close> are exact on floats; products and powers are idealised), its unbounded integers as
  \<^typ>\<open>int\<close> or \<^typ>\<open>nat\<close> (counts), its strings as \<^typ>\<open>string\<close>. A \<open>datetime\<close> is a
  real number of seconds, so that \<open>(now - last).total_seconds()\<close> is a subtraction. Values the
  code obtains from its surroundings (the clock, \<open>uuid4\<close>, the answer of a backing store) are
  arguments of the functions below. A Python \<open>float ** float\<close> with a positive base is
  \<open>powr\<close>.
\<close>

section \<open>\<open>superhuman_hippocampus.py\<close>: the weight-based working memory\<close>

subsection \<open>Configuration and stored entries\<close>

text \<open>The four parameters \<open>__init__\<close> reads from \<open>config\<close>, with the defaults of \<open>config.get\<close>.\<close>

record hippo_config =
  max_working_items :: int
  weight_decay_rate :: real
  min_weight :: real
  boost_factor :: real

definition default_hippo_config :: hippo_config where
  "default_hippo_config =
     \<lparr>max_working_items = 7, weight_decay_rate = 95 / 100, min_weight = 1 / 1000,
      boost_factor = 12 / 10\<rparr>"

definition CONSCIOUS_THRESHOLD :: real where
  "CONSCIOUS_THRESHOLD = 8 / 10"

text \<open>
  The \<open>context\<close> and \<open>metadata\<close> dictionaries of \<open>store_memory\<close>: only the entries the class
  reads are kept. \<open>critical\<close> and \<open>urgent\<close> hold the truthiness of \<open>context.get('critical')\<close>
  and \<open>context.get('urgent')\<close>; \<open>importance\<close> is \<open>None\<close> when the key is absent.
\<close>

record hip_context =
  critical :: bool
  urgent :: bool

record hip_metadata =
  importance :: "real option"

text \<open>The dictionary \<open>memory_entry\<close> that \<open>store_memory\<close> serialises under the memory key.\<close>

record memory_entry =
  mem_id :: string
  content :: string
  mem_context :: hip_context
  metadata :: hip_metadata
  timestamp :: real
  access_count :: nat
  last_access :: real
  weight :: real
  original_weight :: real
  weight_history :: "real list"
  boost_count :: nat

subsection \<open>Redis sorted sets\<close>

text \<open>
  A sorted set is a list of (member, score) pairs with distinct members. \<open>ZADD\<close> replaces the
  score of a member that is present; \<open>ZCARD\<close> counts the members; \<open>ZREMRANGEBYRANK key 0 0\<close>
  removes the member of rank 0, the least by score and then by member.
\<close>

type_synonym zset = "(string \<times> real) list"

definition zadd :: "zset \<Rightarrow> string \<Rightarrow> real \<Rightarrow> zset" where
  "zadd z m sc = filter (\<lambda>e. fst e \<noteq> m) z @ [(m, sc)]"

definition zcard :: "zset \<Rightarrow> nat" where
  "zcard z = length z"

definition zrank_key :: "string \<times> real \<Rightarrow> real \<times> string" where
  "zrank_key e = (snd e, fst e)"

definition zremrangebyrank_0_0 :: "zset \<Rightarrow> zset" where
  "zremrangebyrank_0_0 z = (if z = [] then [] else remove1 (arg_min_list zrank_key z) z)"

definition zscore :: "zset \<Rightarrow> string \<Rightarrow> real option" where
  "zscore z m = map_of z m"

subsection \<open>The state held in Redis and in the object\<close>

record hippo_state =
  memories :: "string \<rightharpoonup> memory_entry"
  weights :: "string \<rightharpoonup> real"
  weight_index :: zset
  working_memory :: zset
  stat_stores :: nat
  stat_retrievals :: nat
  stat_weight_decays :: nat
  stat_weight_boosts :: nat

definition initial_hippo_state :: hippo_state where
  "initial_hippo_state =
     \<lparr>memories = Map.empty, weights = Map.empty, weight_index = [], working_memory = [],
      stat_stores = 0, stat_retrievals = 0, stat_weight_decays = 0, stat_weight_boosts = 0\<rparr>"

subsection \<open>\<open>_calculate_initial_weight\<close>\<close>

definition calculate_initial_weight ::
  "string \<Rightarrow> hip_context \<Rightarrow> hip_metadata \<Rightarrow> real \<Rightarrow> real" where
  "calculate_initial_weight cont ctx md hint =
     (let base_weight = hint;
          imp = (case importance md of None \<Rightarrow> 5 / 10 | Some i \<Rightarrow> i);
          emotional_boost = imp * (3 / 10);
          context_boost = (if critical ctx \<or> urgent ctx then 2 / 10 else 0);
          length_factor = min (1 / 10) (real (length cont) / 1000)
      in min 1 (base_weight + emotional_boost + context_boost + length_factor))"

subsection \<open>\<open>_update_weight_tracking\<close> and \<open>_update_working_memory\<close>\<close>

definition update_weight_tracking :: "string \<Rightarrow> real \<Rightarrow> hippo_state \<Rightarrow> hippo_state" where
  "update_weight_tracking memory_id new_weight s =
     s\<lparr>weights := (weights s)(memory_id \<mapsto> new_weight),
       weight_index := zadd (weight_index s) memory_id new_weight\<rparr>"

definition update_working_memory ::
  "hippo_config \<Rightarrow> string \<Rightarrow> real \<Rightarrow> hippo_state \<Rightarrow> hippo_state" where
  "update_working_memory cfg memory_id w s =
     (if w \<ge> CONSCIOUS_THRESHOLD then
        (let s1 = s\<lparr>working_memory := zadd (working_memory s) memory_id w\<rparr>;
             working_count = zcard (working_memory s1)
         in if int working_count > max_working_items cfg
            then s1\<lparr>working_memory := zremrangebyrank_0_0 (working_memory s1)\<rparr>
            else s1)
      else s)"

subsection \<open>\<open>store_memory\<close>\<close>

text \<open>
  \<open>memory_id\<close> is the value of \<open>uuid.uuid4()\<close> and \<open>now\<close> the clock reading; the function
  returns the identifier and the new state.
\<close>

definition store_memory ::
  "hippo_config \<Rightarrow> string \<Rightarrow> real \<Rightarrow> string \<Rightarrow> hip_context \<Rightarrow> hip_metadata \<Rightarrow> real
     \<Rightarrow> hippo_state \<Rightarrow> string \<times> hippo_state" where
  "store_memory cfg memory_id now cont ctx md initial_weight s =
     (let s1 = s\<lparr>stat_stores := stat_stores s + 1\<rparr>;
          computed_weight = calculate_initial_weight cont ctx md initial_weight;
          entry = \<lparr>mem_id = memory_id, content = cont, mem_context = ctx, metadata = md,
                   timestamp = now, access_count = 1, last_access = now,
                   weight = computed_weight, original_weight = computed_weight,
                   weight_history = [computed_weight], boost_count = 0\<rparr>;
          s2 = s1\<lparr>memories := (memories s1)(memory_id \<mapsto> entry)\<rparr>;
          s3 = s2\<lparr>weights := (weights s2)(memory_id \<mapsto> computed_weight)\<rparr>;
          s4 = s3\<lparr>weight_index := zadd (weight_index s3) memory_id computed_weight\<rparr>;
          s5 = (if computed_weight \<ge> CONSCIOUS_THRESHOLD
                then update_working_memory cfg memory_id computed_weight s4 else s4)
      in (memory_id, s5))"

subsection \<open>\<open>recall_memory\<close>: reinforcement on access\<close>

text \<open>
  \<open>recall_entry\<close> is what \<open>recall_memory\<close> does to the decoded dictionary (lines 157 to 167);
  \<open>recall_memory\<close> threads it through the stored state.
\<close>

definition recall_entry :: "hippo_config \<Rightarrow> real \<Rightarrow> bool \<Rightarrow> memory_entry \<Rightarrow> memory_entry" where
  "recall_entry cfg now boost_weight memory =
     (let m1 = memory\<lparr>access_count := access_count memory + 1, last_access := now\<rparr>
      in if boost_weight then
           (let old_weight = weight m1;
                new_weight = min 1 (old_weight * boost_factor cfg)
            in m1\<lparr>weight := new_weight, boost_count := boost_count m1 + 1,
                  weight_history := weight_history m1 @ [new_weight]\<rparr>)
         else m1)"

definition recall_memory ::
  "hippo_config \<Rightarrow> real \<Rightarrow> string \<Rightarrow> bool \<Rightarrow> hippo_state \<Rightarrow> memory_entry option \<times> hippo_state" where
  "recall_memory cfg now memory_id boost_weight s =
     (case memories s memory_id of
        None \<Rightarrow> (None, s)
      | Some memory \<Rightarrow>
          (let s1 = s\<lparr>stat_retrievals := stat_retrievals s + 1\<rparr>;
               m' = recall_entry cfg now boost_weight memory;
               s2 = (if boost_weight
                     then (update_weight_tracking memory_id (weight m') s1)
                            \<lparr>stat_weight_boosts := stat_weight_boosts s1 + 1\<rparr>
                     else s1)
           in (Some m', s2\<lparr>memories := (memories s2)(memory_id \<mapsto> m')\<rparr>)))"

subsection \<open>\<open>_weight_decay_loop\<close>: one pass of the hourly decay\<close>

text \<open>
  \<open>decay_weight\<close> is the decay computation of lines 360 and 361: the new weight for an old
  weight and a number of hours since the last access. \<open>decay_entry\<close> is the body of the loop
  for one decoded memory (lines 352 to 365): the pass applies the decay only to an entry whose
  last access is more than one hour ago.
\<close>

definition hours_since_access :: "real \<Rightarrow> memory_entry \<Rightarrow> real" where
  "hours_since_access now memory = (now - last_access memory) / 3600"

definition decay_weight :: "hippo_config \<Rightarrow> real \<Rightarrow> real \<Rightarrow> real" where
  "decay_weight cfg hours old_weight =
     (let decay_factor = weight_decay_rate cfg powr (hours / 24)
      in max (min_weight cfg) (old_weight * decay_factor))"

definition decay_entry :: "hippo_config \<Rightarrow> real \<Rightarrow> memory_entry \<Rightarrow> memory_entry" where
  "decay_entry cfg now memory =
     (if hours_since_access now memory > 1 then
        (let old_weight = weight memory;
             new_weight = decay_weight cfg (hours_since_access now memory) old_weight
         in if new_weight \<noteq> old_weight
            then memory\<lparr>weight := new_weight,
                        weight_history := weight_history memory @ [new_weight]\<rparr>
            else memory)
      else memory)"

definition decay_memory :: "hippo_config \<Rightarrow> real \<Rightarrow> string \<Rightarrow> hippo_state \<Rightarrow> hippo_state" where
  "decay_memory cfg now memory_id s =
     (case memories s memory_id of
        None \<Rightarrow> s
      | Some memory \<Rightarrow>
          (let m' = decay_entry cfg now memory
           in if weight m' \<noteq> weight memory
              then (update_weight_tracking memory_id (weight m')
                      (s\<lparr>memories := (memories s)(memory_id \<mapsto> m')\<rparr>))
                     \<lparr>stat_weight_decays := stat_weight_decays s + 1\<rparr>
              else s))"

definition weight_decay_cycle :: "hippo_config \<Rightarrow> real \<Rightarrow> hippo_state \<Rightarrow> hippo_state" where
  "weight_decay_cycle cfg now s =
     fold (decay_memory cfg now) (map fst (weight_index s)) s"

section \<open>\<open>biomimetic_manager.py\<close>: the manager's weight handling\<close>

datatype BrainRegion = HIPPOCAMPUS | NEOCORTEX | CEREBELLUM | AMYGDALA | BRAINSTEM | THALAMUS

text \<open>
  The dataclass \<open>MemoryEntry\<close>. Fields whose names the hippocampus dictionary already uses
  carry the prefix \<open>me_\<close>.
\<close>

record MemoryEntry =
  me_id :: string
  me_content :: string
  content_type :: string
  me_weight :: real
  importance_score :: real
  emotional_significance :: real
  me_access_count :: nat
  created_at :: real
  last_accessed :: real
  brain_regions :: "BrainRegion list"
  associations :: "(string \<times> real) list"
  me_metadata :: "(string \<times> string) list"

text \<open>
  \<open>_reinforce_memory\<close>; \<open>self.weight_spectrum.conscious\<close> is the constant \<open>1.0\<close> of the
  dataclass \<open>MemoryWeight\<close>.
\<close>

definition weight_spectrum_conscious :: real where
  "weight_spectrum_conscious = 1"

definition reinforce_memory :: "real \<Rightarrow> MemoryEntry \<Rightarrow> MemoryEntry" where
  "reinforce_memory now memory =
     (let m1 = memory\<lparr>me_access_count := me_access_count memory + 1, last_accessed := now\<rparr>
      in if me_weight m1 < weight_spectrum_conscious
         then m1\<lparr>me_weight := min 1 (me_weight m1 * (11 / 10))\<rparr>
         else m1)"

text \<open>
  \<open>_apply_weight_decay\<close> runs one SQL statement on the table \<open>semantic_memories\<close>:
  \<^verbatim>\<open>UPDATE semantic_memories SET weight = GREATEST(0.0, weight * 0.95)
  WHERE last_accessed < NOW() - INTERVAL '24 hours'\<close>.
  The table is a list of rows, \<open>now\<close> the value of \<open>NOW()\<close> in seconds.
\<close>

record semantic_memory_row =
  row_id :: string
  row_weight :: real
  row_last_accessed :: real

definition decay_row :: "real \<Rightarrow> semantic_memory_row \<Rightarrow> semantic_memory_row" where
  "decay_row now r =
     (if row_last_accessed r < now - 24 * 3600
      then r\<lparr>row_weight := max 0 (row_weight r * (95 / 100))\<rparr>
      else r)"

definition apply_weight_decay :: "real \<Rightarrow> semantic_memory_row list \<Rightarrow> semantic_memory_row list" where
  "apply_weight_decay now table = map (decay_row now) table"

section \<open>Sequences of decay and reinforcement events\<close>

text \<open>
  An entry of the hippocampus sees, over its life, decay passes and boosting recalls at
  arbitrary clock readings. \<open>weight_trace\<close> lists the stored weight after every such call.
\<close>

datatype weight_event = DecayAt real | RecallAt real

fun apply_event :: "hippo_config \<Rightarrow> weight_event \<Rightarrow> memory_entry \<Rightarrow> memory_entry" where
  "apply_event cfg (DecayAt now) m = decay_entry cfg now m"
| "apply_event cfg (RecallAt now) m = recall_entry cfg now True m"

fun weight_trace :: "hippo_config \<Rightarrow> weight_event list \<Rightarrow> memory_entry \<Rightarrow> real list" where
  "weight_trace cfg [] m = []"
| "weight_trace cfg (e # es) m =
     (let m' = apply_event cfg e m in weight m' # weight_trace cfg es m')"

section \<open>Concrete inputs used by the closed theorems\<close>

definition example_entry :: "real \<Rightarrow> memory_entry" where
  "example_entry w =
     \<lparr>mem_id = ''m1'', content = ''note'', mem_context = \<lparr>critical = False, urgent = False\<rparr>,
      metadata = \<lparr>importance = None\<rparr>, timestamp = 0, access_count = 1, last_access = 0,
      weight = w, original_weight = w, weight_history = [w], boost_count = 0\<rparr>"

definition example_row :: "real \<Rightarrow> semantic_memory_row" where
  "example_row w = \<lparr>row_id = ''r1'', row_weight = w, row_last_accessed = 0\<rparr>"

definition example_MemoryEntry :: "string \<Rightarrow> real \<Rightarrow> real \<Rightarrow> MemoryEntry" where
  "example_MemoryEntry i w imp =
     \<lparr>me_id = i, me_content = ''note'', content_type = ''text'', me_weight = w,
      importance_score = imp, emotional_significance = 1 / 2, me_access_count = 1,
      created_at = 0, last_accessed = 0, brain_regions = [NEOCORTEX], associations = [],
      me_metadata = []\<rparr>"

section \<open>\<open>agentic_thalamus.py\<close>: the routing decision engine\<close>

subsection \<open>Data\<close>

datatype py_error =
  ZeroDivisionError | KeyError string | ValueError string | TypeError string | StoreError string

datatype RoutingStrategy = PARALLEL_ALL | SELECTIVE_ROUTING | PRIORITY_BASED | CONFIDENCE_BASED

datatype VectorType = SEMANTIC | PROCEDURAL | EMOTIONAL | CONTEXTUAL | MIXED

text \<open>
  The \<open>context\<close> dictionary of a packet. The four keys the router reads are optional typed
  entries (\<open>None\<close>: the key is absent); \<open>ctx_other_keys\<close> counts the remaining keys, which
  only \<open>len(context)\<close> sees. An entry that is present has the type the router compares it
  at: a string for \<open>'urgency'\<close>, a number for \<open>'priority'\<close> and \<open>'amplification'\<close>.
\<close>

record routing_context =
  ctx_urgency :: "string option"
  ctx_priority :: "real option"
  ctx_source :: "string option"
  ctx_amplification :: "real option"
  ctx_other_keys :: nat

definition context_len :: "routing_context \<Rightarrow> nat" where
  "context_len c =
     (if ctx_urgency c = None then 0 else 1) + (if ctx_priority c = None then 0 else 1) +
     (if ctx_source c = None then 0 else 1) + (if ctx_amplification c = None then 0 else 1) +
     ctx_other_keys c"

record VectorPacket =
  vp_id :: string
  vector :: "real list"
  vp_content :: string
  vp_metadata :: "(string \<times> string) list"
  vector_type :: VectorType
  vp_priority :: real
  vp_timestamp :: real
  vp_source :: string
  vp_context :: routing_context

text \<open>The payload planned for one region by \<open>_plan_format_transformations\<close>.\<close>

datatype transformation =
    BrainstemDocument string VectorType real real
  | HippocampusInput string real "real list"
  | NeocortexInput "real list" string real
  | CerebellumInput string bool
  | AmygdalaInput string real

record RoutingDecision =
  target_regions :: "string list"
  routing_strategy :: RoutingStrategy
  transformations :: "(string \<times> transformation) list"
  priority_order :: "string list"
  estimated_processing_time :: real
  rd_confidence :: real

record content_signals =
  semantic_signals :: nat
  procedural_signals :: nat
  emotional_signals :: nat
  autonomic_signals :: nat
  content_length :: nat
  complexity_estimate :: nat

record context_signals =
  urgency :: string
  priority :: real
  source_type :: string
  expected_amplification :: real
  confidence :: real

record success_pattern =
  regions :: "string list"
  success_rate :: real

text \<open>
  Of \<open>vector_properties\<close> the norm and the entropy are reported and never read by the
  routing functions; the model keeps the sparsity, the dimensionality and the type.
\<close>

record vector_analysis =
  sparsity :: real
  dimensionality :: nat
  va_type :: VectorType
  va_content_signals :: content_signals
  va_context_signals :: context_signals
  historical_matches :: "success_pattern list"
  routing_confidence :: real

text \<open>
  The router's shared state: the Redis decision cache, keyed by the first ten components of
  the vector (the code hashes their printed form; the model takes the hash to be injective),
  the Redis pattern cache, the statistics and the flag \<open>optimization_enabled\<close>.
\<close>

record thalamus_state =
  decision_cache :: "real list \<rightharpoonup> RoutingDecision"
  pattern_cache :: "VectorType \<rightharpoonup> success_pattern list"
  cache_hits :: nat
  cache_misses :: nat
  optimization_enabled :: bool

subsection \<open>Strings: \<open>str.lower\<close> and the substring test \<open>in\<close>\<close>

definition lower_char :: "char \<Rightarrow> char" where
  "lower_char c =
     (if 65 \<le> (of_char c :: nat) \<and> (of_char c :: nat) \<le> 90
      then char_of (of_char c + 32 :: nat) else c)"

definition lower :: "string \<Rightarrow> string" where
  "lower s = map lower_char s"

fun starts_with :: "string \<Rightarrow> string \<Rightarrow> bool" where
  "starts_with [] ys = True"
| "starts_with (x # xs) [] = False"
| "starts_with (x # xs) (y # ys) = (x = y \<and> starts_with xs ys)"

fun py_in :: "string \<Rightarrow> string \<Rightarrow> bool" where
  "py_in needle [] = (needle = [])"
| "py_in needle (h # hs) = (starts_with needle (h # hs) \<or> py_in needle hs)"

subsection \<open>\<open>_analyze_content_for_routing\<close> and \<open>_extract_context_signals\<close>\<close>

definition keyword_score :: "string list \<Rightarrow> string \<Rightarrow> nat" where
  "keyword_score keywords cont =
     length (filter (\<lambda>word. py_in (lower word) (lower cont)) keywords)"

definition analyze_content_for_routing :: "string \<Rightarrow> content_signals" where
  "analyze_content_for_routing cont =
     (let semantic_score =
            keyword_score [''meaning'', ''understand'', ''concept'', ''knowledge'', ''semantic''] cont;
          procedural_score =
            keyword_score [''step'', ''process'', ''execute'', ''perform'', ''skill'', ''procedure''] cont;
          emotional_score =
            keyword_score [''feel'', ''emotion'', ''important'', ''critical'', ''urgent'', ''priority''] cont;
          autonomic_score =
            keyword_score [''system'', ''monitor'', ''automatic'', ''background'', ''process''] cont
      in \<lparr>semantic_signals = semantic_score, procedural_signals = procedural_score,
          emotional_signals = emotional_score, autonomic_signals = autonomic_score,
          content_length = length cont,
          complexity_estimate = max semantic_score (max procedural_score emotional_score)\<rparr>)"

definition extract_context_signals :: "routing_context \<Rightarrow> context_signals" where
  "extract_context_signals c =
     (let signals =
            \<lparr>urgency = (case ctx_urgency c of None \<Rightarrow> ''normal'' | Some u \<Rightarrow> u),
             priority = (case ctx_priority c of None \<Rightarrow> 5 / 10 | Some p \<Rightarrow> p),
             source_type = (case ctx_source c of None \<Rightarrow> ''unknown'' | Some x \<Rightarrow> x),
             expected_amplification = (case ctx_amplification c of None \<Rightarrow> 1 | Some a \<Rightarrow> a),
             confidence = 5 / 10\<rparr>
      in if context_len c > 3
         then signals\<lparr>confidence := min 1 (confidence signals + 3 / 10)\<rparr>
         else signals)"

subsection \<open>\<open>_match_historical_patterns\<close>\<close>

definition default_patterns :: "VectorType \<Rightarrow> success_pattern list" where
  "default_patterns t =
     (case t of
        SEMANTIC \<Rightarrow> [\<lparr>regions = [''neocortex'', ''hippocampus''], success_rate = 9 / 10\<rparr>,
                     \<lparr>regions = [''neocortex'', ''amygdala''], success_rate = 7 / 10\<rparr>]
      | PROCEDURAL \<Rightarrow> [\<lparr>regions = [''cerebellum'', ''hippocampus''], success_rate = 85 / 100\<rparr>,
                       \<lparr>regions = [''cerebellum'', ''neocortex''], success_rate = 75 / 100\<rparr>]
      | EMOTIONAL \<Rightarrow> [\<lparr>regions = [''amygdala'', ''hippocampus''], success_rate = 9 / 10\<rparr>,
                      \<lparr>regions = [''amygdala'', ''neocortex''], success_rate = 8 / 10\<rparr>]
      | _ \<Rightarrow> [])"

definition match_historical_patterns ::
  "thalamus_state \<Rightarrow> VectorPacket \<Rightarrow> success_pattern list \<times> thalamus_state" where
  "match_historical_patterns s p =
     (case pattern_cache s (vector_type p) of
        Some cached_patterns \<Rightarrow> (cached_patterns, s)
      | None \<Rightarrow>
          (let patterns = default_patterns (vector_type p)
           in (patterns, s\<lparr>pattern_cache := (pattern_cache s)(vector_type p \<mapsto> patterns)\<rparr>)))"

subsection \<open>\<open>_analyze_vector_properties\<close>\<close>

text \<open>
  \<open>np.count_nonzero(vector) / len(vector)\<close> divides two Python integers: an empty vector
  raises \<open>ZeroDivisionError\<close> before anything else happens.
\<close>

definition count_nonzero :: "real list \<Rightarrow> nat" where
  "count_nonzero v = length (filter (\<lambda>x. x \<noteq> 0) v)"

definition analyze_vector_properties ::
  "thalamus_state \<Rightarrow> VectorPacket \<Rightarrow> (py_error + vector_analysis) \<times> thalamus_state" where
  "analyze_vector_properties s p =
     (if length (vector p) = 0 then (Inl ZeroDivisionError, s)
      else
        (let vector_sparsity = real (count_nonzero (vector p)) / real (length (vector p));
             content_analysis = analyze_content_for_routing (vp_content p);
             signals = extract_context_signals (vp_context p);
             (patterns, s') = match_historical_patterns s p
         in (Inr \<lparr>sparsity = vector_sparsity, dimensionality = length (vector p),
                   va_type = vector_type p, va_content_signals = content_analysis,
                   va_context_signals = signals, historical_matches = patterns,
                   routing_confidence = min 1 ((vector_sparsity + confidence signals) / 2)\<rparr>,
             s')))"

subsection \<open>\<open>_select_target_regions\<close> and \<open>_select_routing_strategy\<close>\<close>

text \<open>
  A Python \<open>set\<close> of strings is a duplicate-free list in insertion order. \<open>list(s)\<close> returns
  the members in an order the runtime chooses; it is the argument \<open>set_to_list\<close>, a function of
  the insertion sequence. \<open>is_listing\<close> says that it returns the members and nothing else.
\<close>

definition set_add :: "string \<Rightarrow> string list \<Rightarrow> string list" where
  "set_add x xs = (if x \<in> set xs then xs else xs @ [x])"

definition set_update :: "string list \<Rightarrow> string list \<Rightarrow> string list" where
  "set_update ys xs = fold set_add ys xs"

definition is_listing :: "(string list \<Rightarrow> string list) \<Rightarrow> bool" where
  "is_listing f = (\<forall>xs. set (f xs) = set xs)"

definition selected_regions :: "vector_analysis \<Rightarrow> VectorPacket \<Rightarrow> string list" where
  "selected_regions va p =
     (let cs = va_content_signals va;
          xs = va_context_signals va;
          s0 = [];
          s1 = set_add ''brainstem'' s0;
          s2 = set_add ''hippocampus'' s1;
          s3 = (if semantic_signals cs > 0 \<or> vector_type p = SEMANTIC
                then set_add ''neocortex'' s2 else s2);
          s4 = (if procedural_signals cs > 0 \<or> vector_type p = PROCEDURAL
                then set_add ''cerebellum'' s3 else s3);
          s5 = (if emotional_signals cs > 0 \<or> priority xs > 7 / 10 \<or> vector_type p = EMOTIONAL
                then set_add ''amygdala'' s4 else s4);
          s6 = (if vector_type p = MIXED \<or> expected_amplification xs > 100
                then set_update [''neocortex'', ''cerebellum'', ''amygdala''] s5 else s5)
      in s6)"

definition select_target_regions ::
  "(string list \<Rightarrow> string list) \<Rightarrow> vector_analysis \<Rightarrow> VectorPacket \<Rightarrow> string list" where
  "select_target_regions set_to_list va p = set_to_list (selected_regions va p)"

definition select_routing_strategy ::
  "vector_analysis \<Rightarrow> string list \<Rightarrow> VectorPacket \<Rightarrow> RoutingStrategy" where
  "select_routing_strategy va targets p =
     (let xs = va_context_signals va
      in if urgency xs \<in> set [''high'', ''critical''] \<or> priority xs > 8 / 10
         then PARALLEL_ALL
         else if routing_confidence va > 8 / 10 then SELECTIVE_ROUTING
         else PARALLEL_ALL)"

subsection \<open>\<open>_plan_format_transformations\<close>, \<open>_calculate_priority_order\<close>, \<open>_estimate_processing_time\<close>\<close>

definition plan_region :: "VectorPacket \<Rightarrow> string \<Rightarrow> transformation option" where
  "plan_region p region =
     (if region = ''brainstem''
      then Some (BrainstemDocument (vp_content p) (vector_type p) (vp_priority p) (vp_timestamp p))
      else if region = ''hippocampus''
      then Some (HippocampusInput (vp_content p) (min 1 (vp_priority p)) (take 100 (vector p)))
      else if region = ''neocortex''
      then Some (NeocortexInput (vector p) (vp_content p) (vp_priority p))
      else if region = ''cerebellum''
      then Some (CerebellumInput (vp_content p) (vp_priority p > 7 / 10))
      else if region = ''amygdala''
      then Some (AmygdalaInput (vp_content p) (vp_priority p))
      else None)"

text \<open>A Python dictionary is an association list; an assignment is \<open>dict_set\<close>.\<close>

fun dict_set :: "'k \<Rightarrow> 'v \<Rightarrow> ('k \<times> 'v) list \<Rightarrow> ('k \<times> 'v) list" where
  "dict_set k v [] = [(k, v)]"
| "dict_set k v (e # es) = (if fst e = k then (k, v) # es else e # dict_set k v es)"

definition dict_keys :: "('k \<times> 'v) list \<Rightarrow> 'k list" where
  "dict_keys d = map fst d"

definition plan_format_transformations ::
  "VectorPacket \<Rightarrow> string list \<Rightarrow> (string \<times> transformation) list" where
  "plan_format_transformations p targets =
     fold (\<lambda>region d. case plan_region p region of None \<Rightarrow> d | Some t \<Rightarrow> dict_set region t d)
       targets []"

definition calculate_priority_order ::
  "string list \<Rightarrow> vector_analysis \<Rightarrow> VectorPacket \<Rightarrow> string list" where
  "calculate_priority_order targets va p =
     (let base_order = [''brainstem'', ''amygdala'', ''hippocampus'', ''neocortex'', ''cerebellum''];
          order0 = filter (\<lambda>region. region \<in> set targets) base_order
      in if priority (va_context_signals va) > 8 / 10 \<and> ''amygdala'' \<in> set order0
         then ''amygdala'' # remove1 ''amygdala'' order0
         else order0)"

definition region_times :: "(string \<times> real) list" where
  "region_times =
     [(''brainstem'', 2 / 100), (''hippocampus'', 1 / 100), (''neocortex'', 5 / 100),
      (''cerebellum'', 3 / 100), (''amygdala'', 2 / 100)]"

fun lookup_times :: "string list \<Rightarrow> py_error + real list" where
  "lookup_times [] = Inr []"
| "lookup_times (r # rs) =
     (case map_of region_times r of
        None \<Rightarrow> Inl (KeyError r)
      | Some t \<Rightarrow> (case lookup_times rs of Inl e \<Rightarrow> Inl e | Inr ts \<Rightarrow> Inr (t # ts)))"

definition estimate_processing_time ::
  "string list \<Rightarrow> RoutingStrategy \<Rightarrow> vector_analysis \<Rightarrow> py_error + real" where
  "estimate_processing_time targets strategy va =
     (case lookup_times targets of
        Inl e \<Rightarrow> Inl e
      | Inr ts \<Rightarrow>
          if strategy = PARALLEL_ALL
          then (if ts = [] then Inl (ValueError ''max() arg is an empty sequence'')
                else Inr (fold max ts (hd ts) + 5 / 100))
          else Inr (sum_list ts))"

subsection \<open>\<open>_analyze_and_decide_routing\<close>\<close>

definition cache_key :: "VectorPacket \<Rightarrow> real list" where
  "cache_key p = take 10 (vector p)"

text \<open>
  On a cache miss the function computes the whole decision and then writes it to the cache with
  \<open>json.dumps(asdict(routing_decision))\<close>. The field \<open>routing_strategy\<close> holds a member of the
  plain \<open>Enum\<close> \<open>RoutingStrategy\<close>, which \<open>json.dumps\<close> cannot serialise without a \<open>default\<close>:
  the call raises \<open>TypeError\<close> before \<open>setex\<close> and before \<open>return routing_decision\<close>. So a miss
  never returns a decision and never fills the cache. \<open>computed_decision\<close> is the decision as
  it stands just before that line. A hit returns what the cache holds.
\<close>

definition computed_decision ::
  "(string list \<Rightarrow> string list) \<Rightarrow> vector_analysis \<Rightarrow> VectorPacket \<Rightarrow> py_error + RoutingDecision" where
  "computed_decision set_to_list va p =
     (let targets = select_target_regions set_to_list va p;
          strategy = select_routing_strategy va targets p;
          plan = plan_format_transformations p targets;
          order = calculate_priority_order targets va p
      in case estimate_processing_time targets strategy va of
           Inl e \<Rightarrow> Inl e
         | Inr estimated_time \<Rightarrow>
             Inr \<lparr>target_regions = targets, routing_strategy = strategy,
                  transformations = plan, priority_order = order,
                  estimated_processing_time = estimated_time,
                  rd_confidence = routing_confidence va\<rparr>)"

definition json_dumps_decision :: "RoutingDecision \<Rightarrow> py_error + string" where
  "json_dumps_decision decision =
     Inl (TypeError ''Object of type RoutingStrategy is not JSON serializable'')"

definition analyze_and_decide_routing ::
  "(string list \<Rightarrow> string list) \<Rightarrow> thalamus_state \<Rightarrow> VectorPacket
     \<Rightarrow> (py_error + RoutingDecision) \<times> thalamus_state" where
  "analyze_and_decide_routing set_to_list s p =
     (case (if optimization_enabled s then decision_cache s (cache_key p) else None) of
        Some cached_decision \<Rightarrow> (Inr cached_decision, s\<lparr>cache_hits := cache_hits s + 1\<rparr>)
      | None \<Rightarrow>
          (let s1 = s\<lparr>cache_misses := cache_misses s + 1\<rparr>
           in case analyze_vector_properties s1 p of
                (Inl e, s2) \<Rightarrow> (Inl e, s2)
              | (Inr va, s2) \<Rightarrow>
                  (case computed_decision set_to_list va p of
                     Inl e \<Rightarrow> (Inl e, s2)
                   | Inr decision \<Rightarrow>
                       (case json_dumps_decision decision of
                          Inl e \<Rightarrow> (Inl e, s2)
                        | Inr serialised \<Rightarrow>
                            (Inr decision,
                             s2\<lparr>decision_cache :=
                                   (decision_cache s2)(cache_key p \<mapsto> decision)\<rparr>)))))"

text \<open>Clearing the decision cache (deleting the \<open>routing_decision:*\<close> keys, or their expiry).\<close>

definition clear_decision_cache :: "thalamus_state \<Rightarrow> thalamus_state" where
  "clear_decision_cache s = s\<lparr>decision_cache := Map.empty\<rparr>"

subsection \<open>\<open>_execute_parallel_processing\<close> and the regions \<open>_cognitive_synthesis\<close> reads\<close>










definition example_context :: "nat \<Rightarrow> routing_context" where
  "example_context n =
     \<lparr>ctx_urgency = None, ctx_priority = None, ctx_source = None, ctx_amplification = None,
      ctx_other_keys = n\<rparr>"

definition example_packet :: "string \<Rightarrow> string \<Rightarrow> VectorType \<Rightarrow> routing_context \<Rightarrow> VectorPacket" where
  "example_packet i cont t c =
     \<lparr>vp_id = i, vector = [1, 1, 1, 1], vp_content = cont, vp_metadata = [],
      vector_type = t, vp_priority = 1 / 2, vp_timestamp = 0, vp_source = ''test'',
      vp_context = c\<rparr>"

definition initial_thalamus_state :: thalamus_state where
  "initial_thalamus_state =
     \<lparr>decision_cache = Map.empty, pattern_cache = Map.empty, cache_hits = 0, cache_misses = 0,
      optimization_enabled = True\<rparr>"

definition example_analysis :: "VectorPacket \<Rightarrow> vector_analysis" where
  "example_analysis p =
     \<lparr>sparsity = 1, dimensionality = 4, va_type = vector_type p,
      va_content_signals = analyze_content_for_routing (vp_content p),
      va_context_signals = extract_context_signals (vp_context p),
      historical_matches = [],
      routing_confidence = min 1 ((1 + confidence (extract_context_signals (vp_context p))) / 2)\<rparr>"

section \<open>Sequences of store operations\<close>

text \<open>
  The arguments of one call of the hippocampus \<open>store_memory\<close>, with the identifier and the
  clock reading the call draws; \<open>run_stores\<close> performs the calls of a list in order.
\<close>

record store_request =
  req_id :: string
  req_now :: real
  req_content :: string
  req_context :: hip_context
  req_metadata :: hip_metadata
  req_initial_weight :: real

definition store_request_apply :: "hippo_config \<Rightarrow> store_request \<Rightarrow> hippo_state \<Rightarrow> hippo_state" where
  "store_request_apply cfg r s =
     snd (store_memory cfg (req_id r) (req_now r) (req_content r) (req_context r)
            (req_metadata r) (req_initial_weight r) s)"

definition run_stores :: "hippo_config \<Rightarrow> store_request list \<Rightarrow> hippo_state \<Rightarrow> hippo_state" where
  "run_stores cfg rs s = fold (store_request_apply cfg) rs s"

definition example_request :: "string \<Rightarrow> real \<Rightarrow> store_request" where
  "example_request i w =
     \<lparr>req_id = i, req_now = 0, req_content = ''note'',
      req_context = \<lparr>critical = False, urgent = False\<rparr>,
      req_metadata = \<lparr>importance = Some 0\<rparr>, req_initial_weight = w\<rparr>"

definition example_small_config :: hippo_config where
  "example_small_config = default_hippo_config\<lparr>max_working_items := 2\<rparr>"

definition example_full_state :: hippo_state where
  "example_full_state =
     initial_hippo_state
       \<lparr>memories := [''a'' \<mapsto> example_entry (9 / 10), ''b'' \<mapsto> example_entry (95 / 100)],
        weights := [''a'' \<mapsto> 9 / 10, ''b'' \<mapsto> 95 / 100],
        weight_index := [(''a'', 9 / 10), (''b'', 95 / 100)],
        working_memory := [(''a'', 9 / 10), (''b'', 95 / 100)]\<rparr>"

section \<open>\<open>biomimetic_manager.py\<close>: storing and recalling\<close>

subsection \<open>Strings: \<open>str(int)\<close> and \<open>str.strip\<close>\<close>

definition digit_char :: "nat \<Rightarrow> char" where
  "digit_char n = ''0123456789'' ! (n mod 10)"

fun str_nat :: "nat \<Rightarrow> string" where
  "str_nat n = (if n < 10 then [digit_char n] else str_nat (n div 10) @ [digit_char n])"

declare str_nat.simps [simp del]

definition is_space :: "char \<Rightarrow> bool" where
  "is_space c = ((of_char c :: nat) \<in> set [9, 10, 11, 12, 13, 28, 29, 30, 31, 32, 133, 160])"

definition strip :: "string \<Rightarrow> string" where
  "strip s = rev (dropWhile is_space (rev (dropWhile is_space s)))"

subsection \<open>\<open>store_memory\<close>\<close>

text \<open>
  The working-memory keys of Redis with their expiry time (\<open>setex key 300 value\<close>).
  \<open>redis_ok\<close> tells whether the Redis call succeeds; when it does not, the exception leaves
  \<open>store_memory\<close> through its \<open>except ... raise\<close>.
\<close>

record manager_state =
  working_store :: "string \<rightharpoonup> MemoryEntry \<times> real"

definition brainstem_preprocess :: "string \<Rightarrow> string \<Rightarrow> string" where
  "brainstem_preprocess cont ctype = strip cont"

definition amygdala_evaluate :: "string \<Rightarrow> (string \<times> string) list option \<Rightarrow> real" where
  "amygdala_evaluate cont ctx = 5 / 10"

definition hippocampus_store ::
  "bool \<Rightarrow> real \<Rightarrow> MemoryEntry \<Rightarrow> manager_state \<Rightarrow> py_error + manager_state" where
  "hippocampus_store redis_ok now memory s =
     (if redis_ok
      then Inr (s\<lparr>working_store :=
                    (working_store s)(''working_memory:'' @ me_id memory \<mapsto> (memory, now + 300))\<rparr>)
      else Inl (StoreError ''hippocampus''))"

definition is_procedural :: "string \<Rightarrow> bool" where
  "is_procedural cont =
     (\<exists>keyword \<in> set [''how to'', ''step'', ''process'', ''workflow'', ''algorithm'', ''pattern''].
        py_in keyword (lower cont))"

text \<open>
  \<open>micros\<close> is \<open>int(time.time() * 1000000)\<close>. \<open>_thalamus_route_memory\<close> and
  \<open>_cerebellum_update_patterns\<close> are placeholders (\<open>pass\<close>) and leave no trace.
\<close>

definition manager_store_memory ::
  "bool \<Rightarrow> real \<Rightarrow> nat \<Rightarrow> string \<Rightarrow> string \<Rightarrow> (string \<times> string) list option \<Rightarrow> manager_state
     \<Rightarrow> (py_error + string) \<times> manager_state" where
  "manager_store_memory redis_ok now micros cont ctype ctx s =
     (let memory_id = ''mem_'' @ str_nat micros;
          processed_content = brainstem_preprocess cont ctype;
          emotional_weight = amygdala_evaluate processed_content ctx;
          memory_entry =
            \<lparr>me_id = memory_id, me_content = processed_content, content_type = ctype,
             me_weight = 1, importance_score = 5 / 10,
             emotional_significance = emotional_weight, me_access_count = 1,
             created_at = now, last_accessed = now, brain_regions = [HIPPOCAMPUS],
             associations = [],
             me_metadata = (case ctx of None \<Rightarrow> [] | Some c \<Rightarrow> c)\<rparr>
      in case hippocampus_store redis_ok now memory_entry s of
           Inl e \<Rightarrow> (Inl e, s)
         | Inr s' \<Rightarrow> (Inr memory_id, s'))"

subsection \<open>\<open>recall_memory\<close>\<close>









definition empty_manager_state :: manager_state where
  "empty_manager_state = \<lparr>working_store = Map.empty\<rparr>"






section \<open>Sequences of recalls\<close>

text \<open>
  \<open>recall_weights\<close> performs boosting calls of the hippocampus \<open>recall_memory\<close> for one
  identifier at the given clock readings, each on the state the previous call left, and lists
  the weight of the entry each call returns; it stops when a call returns \<open>None\<close>.
\<close>

fun recall_weights :: "hippo_config \<Rightarrow> string \<Rightarrow> real list \<Rightarrow> hippo_state \<Rightarrow> real list" where
  "recall_weights cfg i [] s = []"
| "recall_weights cfg i (t # ts) s =
     (case recall_memory cfg t i True s of
        (None, s') \<Rightarrow> []
      | (Some m, s') \<Rightarrow> weight m # recall_weights cfg i ts s')"


text \<open>
  The entry \<open>store_memory\<close> writes for \<open>example_request\<close>, and the state after storing \<open>a\<close>
  and \<open>b\<close> and recalling \<open>a\<close>, with room for two entries in working memory.
\<close>

definition stored_entry :: "string \<Rightarrow> real \<Rightarrow> memory_entry" where
  "stored_entry i w =
     \<lparr>mem_id = i, content = ''note'', mem_context = \<lparr>critical = False, urgent = False\<rparr>,
      metadata = \<lparr>importance = Some 0\<rparr>, timestamp = 0, access_count = 1, last_access = 0,
      weight = w, original_weight = w, weight_history = [w], boost_count = 0\<rparr>"

definition example_eviction_state :: hippo_state where
  "example_eviction_state =
     snd (recall_memory example_small_config 10 ''a'' True
            (run_stores example_small_config
               [example_request ''a'' (9 / 10), example_request ''b'' (95 / 100)]
               initial_hippo_state))"



section \<open>Verified properties\<close>

subsection \<open>Sorted sets\<close>

lemma map_of_zadd:
  "map_of (zadd z m sc) k = (if k = m then Some sc else map_of z k)"
proof -
  have "map_of (filter (\<lambda>e. fst e \<noteq> m) z) k = (if k = m then None else map_of z k)"
    by (induction z) auto
  then show ?thesis by (auto simp: zadd_def map_add_def split: option.splits)
qed

subsection \<open>The weight after one decay step and after one boosting recall\<close>

lemma decay_entry_weight:
  "weight (decay_entry cfg now m) =
     (if hours_since_access now m > 1
      then max (min_weight cfg)
             (weight m * weight_decay_rate cfg powr (hours_since_access now m / 24))
      else weight m)"
  by (simp add: decay_entry_def decay_weight_def Let_def)

lemma recall_entry_weight:
  "weight (recall_entry cfg now True m) = min 1 (weight m * boost_factor cfg)"
  by (simp add: recall_entry_def Let_def)

lemma decay_entry_bounds:
  assumes "0 < min_weight cfg" "0 < weight_decay_rate cfg" "weight_decay_rate cfg \<le> 1"
    "min_weight cfg \<le> weight m" "weight m \<le> 1"
  shows "min_weight cfg \<le> weight (decay_entry cfg now m) \<and>
         weight (decay_entry cfg now m) \<le> 1"
proof (cases "hours_since_access now m > 1")
  case True
  let ?f = "weight_decay_rate cfg powr (hours_since_access now m / 24)"
  have "?f \<le> 1" using assms True by (intro powr_le1) auto
  moreover have "0 \<le> weight m" using assms by linarith
  ultimately have "weight m * ?f \<le> weight m * 1" by (intro mult_left_mono) auto
  then have "weight m * ?f \<le> 1" using assms by linarith
  then show ?thesis using True assms by (simp add: decay_entry_weight)
next
  case False
  then show ?thesis using assms by (simp add: decay_entry_weight)
qed

lemma boost_grows:
  fixes w b :: real
  assumes "0 \<le> w" "1 \<le> b"
  shows "w \<le> w * b"
  using assms mult_left_mono[of 1 b w] by simp

lemma recall_entry_bounds:
  assumes "0 < min_weight cfg" "1 \<le> boost_factor cfg"
    "min_weight cfg \<le> weight m" "weight m \<le> 1"
  shows "min_weight cfg \<le> weight (recall_entry cfg now True m) \<and>
         weight (recall_entry cfg now True m) \<le> 1"
proof -
  have "0 \<le> weight m" using assms by linarith
  then have h: "weight m \<le> weight m * boost_factor cfg"
    using assms(2) by (rule boost_grows)
  have a: "min_weight cfg \<le> weight m * boost_factor cfg" using assms(3) h by linarith
  have b: "min_weight cfg \<le> 1" using assms by linarith
  show ?thesis unfolding recall_entry_weight using a b by simp
qed

lemma weight_trace_bounds:
  assumes "0 < min_weight cfg" "0 < weight_decay_rate cfg" "weight_decay_rate cfg \<le> 1"
    "1 \<le> boost_factor cfg"
  shows "min_weight cfg \<le> weight m \<Longrightarrow> weight m \<le> 1 \<Longrightarrow>
    \<forall>w \<in> set (weight_trace cfg evs m). min_weight cfg \<le> w \<and> w \<le> 1"
proof (induction evs arbitrary: m)
  case Nil
  then show ?case by simp
next
  case (Cons e es)
  have b: "min_weight cfg \<le> weight (apply_event cfg e m) \<and> weight (apply_event cfg e m) \<le> 1"
    using decay_entry_bounds[OF assms(1,2,3) Cons.prems]
      recall_entry_bounds[OF assms(1,4) Cons.prems]
    by (cases e) auto
  then show ?case using Cons.IH[of "apply_event cfg e m"] by (simp add: Let_def)
qed

lemma decay_row_bounds:
  assumes "0 < row_weight r" "row_weight r \<le> 1"
  shows "0 < row_weight (decay_row now r) \<and> row_weight (decay_row now r) \<le> 1"
  using assms by (auto simp: decay_row_def)

lemma reinforce_memory_weight:
  "me_weight (reinforce_memory now e) =
     (if me_weight e < 1 then min 1 (me_weight e * (11 / 10)) else me_weight e)"
  by (simp add: reinforce_memory_def weight_spectrum_conscious_def Let_def)

lemma reinforce_memory_bounds:
  assumes "0 < me_weight e" "me_weight e \<le> 1"
  shows "0 < me_weight (reinforce_memory now e) \<and> me_weight (reinforce_memory now e) \<le> 1"
  using assms by (auto simp: reinforce_memory_weight)

subsection \<open>Weight bounds\<close>

text \<open>
  Claim C1, as the code has it. In \<open>SuperhumanHippocampus\<close>, with \<open>min_weight > 0\<close>, a decay
  rate in \<open>(0, 1]\<close> and a boost factor of at least 1, every sequence of decay passes and
  boosting recalls that starts from a weight in \<open>[min_weight, 1]\<close> keeps the stored weight in
  \<open>[min_weight, 1]\<close> after every call, so it is never zero. The manager's SQL decay and its
  \<open>_reinforce_memory\<close> have the floor \<open>0.0\<close> instead of \<open>min_weight\<close>: they keep a weight of
  \<open>(0, 1]\<close> in \<open>(0, 1]\<close>.
\<close>

theorem weight_bounds:
  assumes "0 < min_weight cfg" "0 < weight_decay_rate cfg" "weight_decay_rate cfg \<le> 1"
    "1 \<le> boost_factor cfg" "min_weight cfg \<le> weight m" "weight m \<le> 1"
    "0 < row_weight r" "row_weight r \<le> 1" "0 < me_weight e" "me_weight e \<le> 1"
  shows "set (weight_trace cfg evs m) \<subseteq> {min_weight cfg .. 1} \<and>
         0 \<notin> set (weight_trace cfg evs m) \<and>
         row_weight (decay_row now r) \<in> {0 <.. 1} \<and>
         me_weight (reinforce_memory now e) \<in> {0 <.. 1}"
proof -
  have t: "\<forall>w \<in> set (weight_trace cfg evs m). min_weight cfg \<le> w \<and> w \<le> 1"
    using weight_trace_bounds[OF assms(1-6)] .
  have "0 \<notin> set (weight_trace cfg evs m)"
  proof
    assume "0 \<in> set (weight_trace cfg evs m)"
    with t have "min_weight cfg \<le> 0" by blast
    with assms(1) show False by simp
  qed
  moreover have "set (weight_trace cfg evs m) \<subseteq> {min_weight cfg .. 1}"
    using t by auto
  moreover have "row_weight (decay_row now r) \<in> {0 <.. 1}"
    using decay_row_bounds[OF assms(7,8)] by simp
  moreover have "me_weight (reinforce_memory now e) \<in> {0 <.. 1}"
    using reinforce_memory_bounds[OF assms(9,10)] by simp
  ultimately show ?thesis by blast
qed

theorem weight_bounds_witness:
  "0 < min_weight default_hippo_config \<and> 0 < weight_decay_rate default_hippo_config \<and>
   weight_decay_rate default_hippo_config \<le> 1 \<and> 1 \<le> boost_factor default_hippo_config \<and>
   min_weight default_hippo_config \<le> weight (example_entry (1 / 2)) \<and>
   weight (example_entry (1 / 2)) \<le> 1 \<and>
   0 < row_weight (example_row (1 / 1000)) \<and> row_weight (example_row (1 / 1000)) \<le> 1 \<and>
   0 < me_weight (example_MemoryEntry ''a'' (1 / 2) (1 / 2)) \<and>
   me_weight (example_MemoryEntry ''a'' (1 / 2) (1 / 2)) \<le> 1 \<and>
   weight_trace default_hippo_config [DecayAt 172800, RecallAt 172900] (example_entry (1 / 2))
     = [361 / 800, 1083 / 2000] \<and>
   set (weight_trace default_hippo_config [DecayAt 172800, RecallAt 172900] (example_entry (1 / 2)))
     \<subseteq> {min_weight default_hippo_config .. 1} \<and>
   row_weight (decay_row 172800 (example_row (1 / 1000))) \<in> {0 <.. 1} \<and>
   me_weight (reinforce_memory 172800 (example_MemoryEntry ''a'' (1 / 2) (1 / 2))) \<in> {0 <.. 1}"
proof -
  have h: "0 < min_weight default_hippo_config" "0 < weight_decay_rate default_hippo_config"
    "weight_decay_rate default_hippo_config \<le> 1" "1 \<le> boost_factor default_hippo_config"
    "min_weight default_hippo_config \<le> weight (example_entry (1 / 2))"
    "weight (example_entry (1 / 2)) \<le> 1"
    "0 < row_weight (example_row (1 / 1000))" "row_weight (example_row (1 / 1000)) \<le> 1"
    "0 < me_weight (example_MemoryEntry ''a'' (1 / 2) (1 / 2))"
    "me_weight (example_MemoryEntry ''a'' (1 / 2) (1 / 2)) \<le> 1"
    by (simp_all add: default_hippo_config_def example_entry_def example_row_def
        example_MemoryEntry_def)
  have tr: "weight_trace default_hippo_config [DecayAt 172800, RecallAt 172900]
      (example_entry (1 / 2)) = [361 / 800, 1083 / 2000]"
    by (simp add: default_hippo_config_def example_entry_def decay_entry_def decay_weight_def
        recall_entry_def hours_since_access_def Let_def power2_eq_square)
  show ?thesis
    using h tr weight_bounds[OF h, of "[DecayAt 172800, RecallAt 172900]" 172800]
    by simp
qed

theorem manager_decay_below_min_weight_counterexample:
  "row_weight (example_row (1 / 1000)) \<in> {1 / 1000 .. 1} \<and>
   row_weight (decay_row 172800 (example_row (1 / 1000))) = 95 / 100000 \<and>
   row_weight (decay_row 172800 (example_row (1 / 1000))) < 1 / 1000"
  by (simp add: decay_row_def example_row_def)

subsection \<open>The decay formula and its monotonicity\<close>

lemma decay_factor_antimono:
  fixes r a b :: real
  assumes "0 < r" "r \<le> 1" "a \<le> b"
  shows "r powr b \<le> r powr a"
  using assms by (intro powr_mono') auto

lemma decay_weight_mono:
  assumes r: "0 < weight_decay_rate cfg" "weight_decay_rate cfg \<le> 1"
    and mw: "0 \<le> min_weight cfg" and h: "h1 \<le> h2"
  shows "decay_weight cfg h2 w \<le> decay_weight cfg h1 w"
proof (cases "0 \<le> w")
  case True
  have "weight_decay_rate cfg powr (h2 / 24) \<le> weight_decay_rate cfg powr (h1 / 24)"
    using r h by (intro decay_factor_antimono) (auto simp: divide_right_mono)
  then have "w * weight_decay_rate cfg powr (h2 / 24) \<le> w * weight_decay_rate cfg powr (h1 / 24)"
    using True by (rule mult_left_mono)
  then show ?thesis by (simp add: decay_weight_def max.coboundedI2)
next
  case False
  have "w * weight_decay_rate cfg powr (h / 24) \<le> 0" for h
    using False by (simp add: mult_le_0_iff)
  then have "decay_weight cfg h w = min_weight cfg" for h
    using mw by (simp add: decay_weight_def max_def) (smt (verit))
  then show ?thesis by simp
qed

lemma decay_memory_stored:
  assumes "memories s i = Some m" "1 < hours_since_access now m"
  shows "map_option weight (memories (decay_memory cfg now i s) i) =
           Some (decay_weight cfg (hours_since_access now m) (weight m))"
    and "decay_weight cfg (hours_since_access now m) (weight m) \<noteq> weight m \<Longrightarrow>
           weights (decay_memory cfg now i s) i =
             Some (decay_weight cfg (hours_since_access now m) (weight m)) \<and>
           zscore (weight_index (decay_memory cfg now i s)) i =
             Some (decay_weight cfg (hours_since_access now m) (weight m))"
  using assms
  by (auto simp: decay_memory_def decay_entry_def update_weight_tracking_def zscore_def
      map_of_zadd Let_def)

lemma decay_memory_recent:
  assumes "memories s i = Some m" "hours_since_access now m \<le> 1"
  shows "decay_memory cfg now i s = s"
  using assms by (simp add: decay_memory_def decay_entry_def)

text \<open>
  Claim C3. The decay computation of the hippocampus (lines 360 and 361) is
  \<open>Decay(w, h, r) = max(min_weight, w * r^(h/24))\<close> for every weight and every number of hours.
  For a rate in \<open>(0, 1)\<close> and \<open>min_weight \<ge> 0\<close> (the specification has \<open>minWeight > 0\<close>) it is
  antitone in the hours: \<open>h2 > h1 \<ge> 0\<close> gives \<open>Decay(w, h2, r) \<le> Decay(w, h1, r)\<close>, for
  every weight. The decay pass stores exactly this value for an entry whose last access is
  more than one hour ago, in the memory record and, when the weight changed, under the weight
  key and in the weight index; it leaves an entry accessed within the last hour alone.
\<close>

theorem decay_formula:
  "decay_weight cfg h w = max (min_weight cfg) (w * weight_decay_rate cfg powr (h / 24)) \<and>
   (0 < weight_decay_rate cfg \<and> weight_decay_rate cfg < 1 \<and> 0 \<le> min_weight cfg \<and>
    0 \<le> h1 \<and> h1 < h2 \<longrightarrow> decay_weight cfg h2 w \<le> decay_weight cfg h1 w) \<and>
   (memories s i = Some m \<and> 1 < hours_since_access now_a m \<longrightarrow>
      map_option weight (memories (decay_memory cfg now_a i s) i) =
        Some (decay_weight cfg (hours_since_access now_a m) (weight m))) \<and>
   (memories s i = Some m \<and> 1 < hours_since_access now_a m \<and>
    decay_weight cfg (hours_since_access now_a m) (weight m) \<noteq> weight m \<longrightarrow>
      weights (decay_memory cfg now_a i s) i =
        Some (decay_weight cfg (hours_since_access now_a m) (weight m)) \<and>
      zscore (weight_index (decay_memory cfg now_a i s)) i =
        Some (decay_weight cfg (hours_since_access now_a m) (weight m))) \<and>
   (memories s i = Some m \<and> hours_since_access now_b m \<le> 1 \<longrightarrow>
      decay_memory cfg now_b i s = s)"
proof (intro conjI impI)
  show "decay_weight cfg h w = max (min_weight cfg) (w * weight_decay_rate cfg powr (h / 24))"
    by (simp add: decay_weight_def)
next
  assume "0 < weight_decay_rate cfg \<and> weight_decay_rate cfg < 1 \<and> 0 \<le> min_weight cfg \<and>
    0 \<le> h1 \<and> h1 < h2"
  then show "decay_weight cfg h2 w \<le> decay_weight cfg h1 w"
    by (intro decay_weight_mono) auto
next
  assume "memories s i = Some m \<and> 1 < hours_since_access now_a m"
  then show "map_option weight (memories (decay_memory cfg now_a i s) i) =
        Some (decay_weight cfg (hours_since_access now_a m) (weight m))"
    using decay_memory_stored(1) by blast
next
  assume a: "memories s i = Some m \<and> 1 < hours_since_access now_a m \<and>
    decay_weight cfg (hours_since_access now_a m) (weight m) \<noteq> weight m"
  then show "weights (decay_memory cfg now_a i s) i =
        Some (decay_weight cfg (hours_since_access now_a m) (weight m))"
    using decay_memory_stored(2) by blast
  from a show "zscore (weight_index (decay_memory cfg now_a i s)) i =
        Some (decay_weight cfg (hours_since_access now_a m) (weight m))"
    using decay_memory_stored(2) by blast
next
  assume "memories s i = Some m \<and> hours_since_access now_b m \<le> 1"
  then show "decay_memory cfg now_b i s = s"
    using decay_memory_recent by blast
qed

theorem decay_formula_witness:
  "0 < weight_decay_rate default_hippo_config \<and> weight_decay_rate default_hippo_config < 1 \<and>
   0 \<le> min_weight default_hippo_config \<and> (0::real) \<le> 24 \<and> (24::real) < 48 \<and>
   memories example_full_state ''a'' = Some (example_entry (9 / 10)) \<and>
   1 < hours_since_access 172800 (example_entry (9 / 10)) \<and>
   hours_since_access 1800 (example_entry (9 / 10)) \<le> 1 \<and>
   decay_weight default_hippo_config 48 (9 / 10) = 3249 / 4000 \<and>
   decay_weight default_hippo_config 48 (9 / 10) \<noteq> weight (example_entry (9 / 10)) \<and>
   decay_weight default_hippo_config 48 (9 / 10) \<le> decay_weight default_hippo_config 24 (9 / 10) \<and>
   map_option weight (memories (decay_memory default_hippo_config 172800 ''a'' example_full_state)
      ''a'') = Some (3249 / 4000) \<and>
   weights (decay_memory default_hippo_config 172800 ''a'' example_full_state) ''a''
     = Some (3249 / 4000) \<and>
   zscore (weight_index (decay_memory default_hippo_config 172800 ''a'' example_full_state)) ''a''
     = Some (3249 / 4000) \<and>
   decay_memory default_hippo_config 1800 ''a'' example_full_state = example_full_state"
proof -
  have r: "0 < weight_decay_rate default_hippo_config \<and>
      weight_decay_rate default_hippo_config < 1 \<and> 0 \<le> min_weight default_hippo_config \<and>
      (0::real) \<le> 24 \<and> (24::real) < 48"
    by (simp add: default_hippo_config_def)
  have m: "memories example_full_state ''a'' = Some (example_entry (9 / 10))"
    by (simp add: example_full_state_def)
  have h: "hours_since_access 172800 (example_entry (9 / 10)) = 48"
    "hours_since_access 1800 (example_entry (9 / 10)) \<le> 1"
    "weight (example_entry (9 / 10)) = 9 / 10"
    by (simp_all add: hours_since_access_def example_entry_def)
  have h1: "1 < hours_since_access 172800 (example_entry (9 / 10))" by (simp add: h(1))
  note T = decay_formula[of default_hippo_config 48 "9 / 10" 24 48 example_full_state "''a''"
      "example_entry (9 / 10)" 172800 1800]
  from T have "decay_weight default_hippo_config 48 (9 / 10) =
      max (min_weight default_hippo_config)
        (9 / 10 * weight_decay_rate default_hippo_config powr (48 / 24))"
    by blast
  then have v: "decay_weight default_hippo_config 48 (9 / 10) = 3249 / 4000"
    by (simp add: default_hippo_config_def power2_eq_square)
  have ne: "decay_weight default_hippo_config 48 (9 / 10) \<noteq> weight (example_entry (9 / 10))"
    by (simp add: v h(3))
  from T r have mono: "decay_weight default_hippo_config 48 (9 / 10)
      \<le> decay_weight default_hippo_config 24 (9 / 10)"
    by blast
  from T m h1 have a: "map_option weight
      (memories (decay_memory default_hippo_config 172800 ''a'' example_full_state) ''a'')
      = Some (decay_weight default_hippo_config
                (hours_since_access 172800 (example_entry (9 / 10)))
                (weight (example_entry (9 / 10))))"
    by blast
  from T m h1 ne have b: "weights (decay_memory default_hippo_config 172800 ''a''
        example_full_state) ''a''
      = Some (decay_weight default_hippo_config
                (hours_since_access 172800 (example_entry (9 / 10)))
                (weight (example_entry (9 / 10)))) \<and>
      zscore (weight_index (decay_memory default_hippo_config 172800 ''a'' example_full_state))
        ''a''
      = Some (decay_weight default_hippo_config
                (hours_since_access 172800 (example_entry (9 / 10)))
                (weight (example_entry (9 / 10))))"
    unfolding h(1) h(3) by blast
  from T m h(2) have c: "decay_memory default_hippo_config 1800 ''a'' example_full_state
      = example_full_state"
    by blast
  from r m h1 h(2) v ne mono a[unfolded h(1) h(3) v] b[unfolded h(1) h(3) v] c
  show ?thesis by (intro conjI) (simp_all only: simp_thms)
qed

subsection \<open>Reinforcement\<close>

lemma recall_trace_bounds:
  assumes "0 < min_weight cfg" "1 \<le> boost_factor cfg"
  shows "min_weight cfg \<le> weight m \<Longrightarrow> weight m \<le> 1 \<Longrightarrow>
    sorted (weight m # weight_trace cfg (map RecallAt ts) m) \<and>
    set (weight_trace cfg (map RecallAt ts) m) \<subseteq> {weight m .. 1}"
proof (induction ts arbitrary: m)
  case Nil
  then show ?case by simp
next
  case (Cons t ts)
  let ?m' = "recall_entry cfg t True m"
  have b: "min_weight cfg \<le> weight ?m'" "weight ?m' \<le> 1"
    using recall_entry_bounds[OF assms Cons.prems] by auto
  have "0 \<le> weight m" using assms(1) Cons.prems(1) by linarith
  then have "weight m \<le> weight m * boost_factor cfg" using assms(2) by (rule boost_grows)
  then have g: "weight m \<le> weight ?m'"
    using Cons.prems(2) by (simp add: recall_entry_weight)
  from Cons.IH[OF b] have srt: "sorted (weight ?m' # weight_trace cfg (map RecallAt ts) ?m')"
    and sub: "set (weight_trace cfg (map RecallAt ts) ?m') \<subseteq> {weight ?m' .. 1}"
    by simp_all
  have "\<forall>x \<in> set (weight_trace cfg (map RecallAt ts) ?m'). weight m \<le> x \<and> x \<le> 1"
    using sub g by fastforce
  with srt g b(2) show ?case
    by (auto simp: Let_def)
qed

lemma recall_memory_result:
  assumes "memories s i = Some m"
  shows "fst (recall_memory cfg now i True s) = Some (recall_entry cfg now True m)"
    and "memories (snd (recall_memory cfg now i True s)) i = Some (recall_entry cfg now True m)"
    and "weights (snd (recall_memory cfg now i True s)) i
           = Some (weight (recall_entry cfg now True m))"
    and "zscore (weight_index (snd (recall_memory cfg now i True s))) i
           = Some (weight (recall_entry cfg now True m))"
  using assms
  by (simp_all add: recall_memory_def update_weight_tracking_def zscore_def map_of_zadd Let_def)

lemma recall_weights_trace:
  "memories s i = Some m \<Longrightarrow>
   recall_weights cfg i ts s = weight_trace cfg (map RecallAt ts) m"
proof (induction ts arbitrary: s m)
  case Nil
  then show ?case by simp
next
  case (Cons t ts)
  obtain r s' where rs: "recall_memory cfg t i True s = (r, s')" by (cases "recall_memory cfg t i True s")
  from recall_memory_result(1,2)[OF Cons.prems, of cfg t] rs
  have r: "r = Some (recall_entry cfg t True m)"
    and m': "memories s' i = Some (recall_entry cfg t True m)"
    by simp_all
  show ?case using Cons.IH[OF m'] by (simp add: rs r Let_def)
qed

text \<open>
  Claim C4. For a stored entry with a weight in \<open>[min_weight, 1]\<close>, \<open>min_weight > 0\<close> and a
  boost factor above 1, a boosting \<open>recall_memory\<close> returns the entry with the weight
  \<open>min(1.0, w * boost_factor)\<close> and stores that weight in the memory record, under the weight
  key and in the weight index; it is above \<open>w\<close> when \<open>w < 1\<close> and never above 1. The next
  recall starts from the stored weight: over any run of recalls the returned weights never
  decrease and never exceed 1. The manager's \<open>_reinforce_memory\<close> is the same function with the
  factor 1.1.
\<close>

theorem reinforce_formula:
  assumes "0 < min_weight cfg" "min_weight cfg \<le> weight m" "weight m \<le> 1"
    "1 < boost_factor cfg" "min_weight cfg \<le> me_weight e" "me_weight e \<le> 1"
    "memories s i = Some m"
  shows "weight (recall_entry cfg now True m) = min 1 (weight m * boost_factor cfg) \<and>
         weight (recall_entry cfg now True m) \<le> 1 \<and>
         (weight m < 1 \<longrightarrow> weight m < weight (recall_entry cfg now True m)) \<and>
         sorted (weight m # weight_trace cfg (map RecallAt ts) m) \<and>
         set (weight_trace cfg (map RecallAt ts) m) \<subseteq> {weight m .. 1} \<and>
         me_weight (reinforce_memory now e) = min 1 (me_weight e * (11 / 10)) \<and>
         (me_weight e < 1 \<longrightarrow> me_weight e < me_weight (reinforce_memory now e)) \<and>
         map_option weight (fst (recall_memory cfg now i True s))
           = Some (min 1 (weight m * boost_factor cfg)) \<and>
         map_option weight (memories (snd (recall_memory cfg now i True s)) i)
           = Some (min 1 (weight m * boost_factor cfg)) \<and>
         weights (snd (recall_memory cfg now i True s)) i
           = Some (min 1 (weight m * boost_factor cfg)) \<and>
         zscore (weight_index (snd (recall_memory cfg now i True s))) i
           = Some (min 1 (weight m * boost_factor cfg)) \<and>
         recall_weights cfg i [t1, t2] s =
           [min 1 (weight m * boost_factor cfg),
            min 1 (min 1 (weight m * boost_factor cfg) * boost_factor cfg)] \<and>
         length (recall_weights cfg i ts s) = length ts \<and>
         sorted (weight m # recall_weights cfg i ts s) \<and>
         set (recall_weights cfg i ts s) \<subseteq> {weight m .. 1}"
proof -
  have w0: "0 < weight m" using assms by linarith
  have e0: "0 < me_weight e" using assms by linarith
  have s: "weight m < 1 \<longrightarrow> weight m < weight (recall_entry cfg now True m)"
  proof
    assume l: "weight m < 1"
    have "weight m * 1 < weight m * boost_factor cfg"
      using w0 assms(4) by (intro mult_strict_left_mono) auto
    with l show "weight m < weight (recall_entry cfg now True m)"
      by (simp add: recall_entry_weight)
  qed
  have b: "weight (recall_entry cfg now True m) \<le> 1" by (simp add: recall_entry_weight)
  have t: "sorted (weight m # weight_trace cfg (map RecallAt ts) m) \<and>
    set (weight_trace cfg (map RecallAt ts) m) \<subseteq> {weight m .. 1}"
    using recall_trace_bounds[of cfg m ts] assms by simp
  have r: "me_weight (reinforce_memory now e) = min 1 (me_weight e * (11 / 10))"
    using assms(6) by (auto simp: reinforce_memory_weight)
  have rs: "me_weight e < 1 \<longrightarrow> me_weight e < me_weight (reinforce_memory now e)"
    using e0 by (auto simp: reinforce_memory_weight)
  note st = recall_memory_result[OF assms(7), of cfg now]
  have st1: "map_option weight (fst (recall_memory cfg now i True s))
           = Some (min 1 (weight m * boost_factor cfg))"
    by (simp add: st(1) recall_entry_weight)
  have st2: "map_option weight (memories (snd (recall_memory cfg now i True s)) i)
           = Some (min 1 (weight m * boost_factor cfg))"
    by (simp add: st(2) recall_entry_weight)
  have st3: "weights (snd (recall_memory cfg now i True s)) i
           = Some (min 1 (weight m * boost_factor cfg))"
    by (simp add: st(3) recall_entry_weight)
  have st4: "zscore (weight_index (snd (recall_memory cfg now i True s))) i
           = Some (min 1 (weight m * boost_factor cfg))"
    by (simp add: st(4) recall_entry_weight)
  have tr: "recall_weights cfg i xs s = weight_trace cfg (map RecallAt xs) m" for xs
    using assms(7) by (rule recall_weights_trace)
  have two: "recall_weights cfg i [t1, t2] s =
           [min 1 (weight m * boost_factor cfg),
            min 1 (min 1 (weight m * boost_factor cfg) * boost_factor cfg)]"
    unfolding tr by (simp add: recall_entry_weight Let_def)
  have len: "length (weight_trace cfg evs m') = length evs" for evs m'
    by (induction evs arbitrary: m') (simp_all add: Let_def)
  have ln: "length (recall_weights cfg i ts s) = length ts"
    unfolding tr by (simp add: len)
  have t': "sorted (weight m # recall_weights cfg i ts s) \<and>
    set (recall_weights cfg i ts s) \<subseteq> {weight m .. 1}"
    unfolding tr by (rule t)
  have f: "weight (recall_entry cfg now True m) = min 1 (weight m * boost_factor cfg)"
    by (rule recall_entry_weight)
  from f b s t r rs st1 st2 st3 st4 two ln t' show ?thesis by blast
qed

theorem reinforce_formula_witness:
  "0 < min_weight default_hippo_config \<and>
   min_weight default_hippo_config \<le> weight (example_entry (9 / 10)) \<and>
   weight (example_entry (9 / 10)) \<le> 1 \<and> 1 < boost_factor default_hippo_config \<and>
   min_weight default_hippo_config \<le> me_weight (example_MemoryEntry ''a'' (1 / 2) (1 / 2)) \<and>
   me_weight (example_MemoryEntry ''a'' (1 / 2) (1 / 2)) \<le> 1 \<and>
   memories example_full_state ''a'' = Some (example_entry (9 / 10)) \<and>
   weight (example_entry (9 / 10)) < 1 \<and>
   me_weight (example_MemoryEntry ''a'' (1 / 2) (1 / 2)) < 1 \<and>
   weight (example_entry (9 / 10))
     < weight (recall_entry default_hippo_config 60 True (example_entry (9 / 10))) \<and>
   map_option weight (fst (recall_memory default_hippo_config 60 ''a'' True example_full_state))
     = Some 1 \<and>
   weights (snd (recall_memory default_hippo_config 60 ''a'' True example_full_state)) ''a''
     = Some 1 \<and>
   zscore (weight_index (snd (recall_memory default_hippo_config 60 ''a'' True
      example_full_state))) ''a'' = Some 1 \<and>
   recall_weights default_hippo_config ''a'' [60, 120] example_full_state = [1, 1] \<and>
   me_weight (reinforce_memory 60 (example_MemoryEntry ''a'' (1 / 2) (1 / 2))) = 11 / 20"
proof -
  have h: "0 < min_weight default_hippo_config"
    "min_weight default_hippo_config \<le> weight (example_entry (9 / 10))"
    "weight (example_entry (9 / 10)) \<le> 1" "1 < boost_factor default_hippo_config"
    "min_weight default_hippo_config \<le> me_weight (example_MemoryEntry ''a'' (1 / 2) (1 / 2))"
    "me_weight (example_MemoryEntry ''a'' (1 / 2) (1 / 2)) \<le> 1"
    "memories example_full_state ''a'' = Some (example_entry (9 / 10))"
    by (simp_all add: default_hippo_config_def example_entry_def example_MemoryEntry_def
        example_full_state_def)
  have l: "weight (example_entry (9 / 10)) < 1"
    "me_weight (example_MemoryEntry ''a'' (1 / 2) (1 / 2)) < 1"
    by (simp_all add: example_entry_def example_MemoryEntry_def)
  have v: "min 1 (weight (example_entry (9 / 10)) * boost_factor default_hippo_config) = 1"
    "min 1 (me_weight (example_MemoryEntry ''a'' (1 / 2) (1 / 2)) * (11 / 10)) = 11 / 20"
    "min 1 (1 * boost_factor default_hippo_config) = 1"
    by (simp_all add: default_hippo_config_def example_entry_def example_MemoryEntry_def)
  note T = reinforce_formula[OF h, of 60 "[]" 60 120]
  from T l(1) have b: "weight (example_entry (9 / 10))
     < weight (recall_entry default_hippo_config 60 True (example_entry (9 / 10)))"
    by blast
  from T have "map_option weight (fst (recall_memory default_hippo_config 60 ''a'' True
        example_full_state))
      = Some (min 1 (weight (example_entry (9 / 10)) * boost_factor default_hippo_config))"
    by blast
  then have c1: "map_option weight (fst (recall_memory default_hippo_config 60 ''a'' True
        example_full_state)) = Some 1"
    by (simp only: v)
  from T have "weights (snd (recall_memory default_hippo_config 60 ''a'' True
        example_full_state)) ''a''
      = Some (min 1 (weight (example_entry (9 / 10)) * boost_factor default_hippo_config))"
    by blast
  then have c2: "weights (snd (recall_memory default_hippo_config 60 ''a'' True
        example_full_state)) ''a'' = Some 1"
    by (simp only: v)
  from T have "zscore (weight_index (snd (recall_memory default_hippo_config 60 ''a'' True
        example_full_state))) ''a''
      = Some (min 1 (weight (example_entry (9 / 10)) * boost_factor default_hippo_config))"
    by blast
  then have c3: "zscore (weight_index (snd (recall_memory default_hippo_config 60 ''a'' True
        example_full_state))) ''a'' = Some 1"
    by (simp only: v)
  from T have "recall_weights default_hippo_config ''a'' [60, 120] example_full_state =
           [min 1 (weight (example_entry (9 / 10)) * boost_factor default_hippo_config),
            min 1 (min 1 (weight (example_entry (9 / 10)) * boost_factor default_hippo_config)
                   * boost_factor default_hippo_config)]"
    by blast
  then have c4: "recall_weights default_hippo_config ''a'' [60, 120] example_full_state = [1, 1]"
    by (simp only: v)
  from T have "me_weight (reinforce_memory 60 (example_MemoryEntry ''a'' (1 / 2) (1 / 2))) =
      min 1 (me_weight (example_MemoryEntry ''a'' (1 / 2) (1 / 2)) * (11 / 10))"
    by blast
  then have c5: "me_weight (reinforce_memory 60 (example_MemoryEntry ''a'' (1 / 2) (1 / 2)))
      = 11 / 20"
    by (simp only: v)
  from h l b c1 c2 c3 c4 c5 show ?thesis by (intro conjI)
qed

subsection \<open>Target regions\<close>

lemma set_set_add: "set (set_add x xs) = insert x (set xs)"
  by (auto simp: set_add_def)

lemma set_set_update: "set (set_update ys xs) = set ys \<union> set xs"
  unfolding set_update_def
  by (induction ys arbitrary: xs) (auto simp: set_set_add)

lemma set_selected_regions:
  "set (selected_regions va p) =
     {''brainstem'', ''hippocampus''} \<union>
     (if semantic_signals (va_content_signals va) > 0 \<or> vector_type p = SEMANTIC
      then {''neocortex''} else {}) \<union>
     (if procedural_signals (va_content_signals va) > 0 \<or> vector_type p = PROCEDURAL
      then {''cerebellum''} else {}) \<union>
     (if emotional_signals (va_content_signals va) > 0 \<or>
         priority (va_context_signals va) > 7 / 10 \<or> vector_type p = EMOTIONAL
      then {''amygdala''} else {}) \<union>
     (if vector_type p = MIXED \<or> expected_amplification (va_context_signals va) > 100
      then {''neocortex'', ''cerebellum'', ''amygdala''} else {})"
  unfolding selected_regions_def Let_def
  by (simp only: set_set_add set_set_update if_distrib[of set] if_distrib[of "\<lambda>xs. insert _ (set xs)"])
    (auto split: if_splits)

text \<open>
  Claim C6, as the code has it. Whatever the content signals, the chosen regions contain the
  two defaults of the code, \<open>brainstem\<close> (autonomic processing) and \<open>hippocampus\<close> (working
  memory). The priority and assessment tier, \<open>amygdala\<close>, is not a default: it is chosen
  exactly when an emotional keyword occurs, the context priority is above 0.7, the declared
  type is emotional or mixed, or the expected amplification is above 100.
\<close>

theorem default_regions:
  assumes "is_listing set_to_list"
  shows "''brainstem'' \<in> set (select_target_regions set_to_list va p) \<and>
         ''hippocampus'' \<in> set (select_target_regions set_to_list va p) \<and>
         ((''amygdala'' \<in> set (select_target_regions set_to_list va p)) =
            (emotional_signals (va_content_signals va) > 0 \<or>
             priority (va_context_signals va) > 7 / 10 \<or> vector_type p = EMOTIONAL \<or>
             vector_type p = MIXED \<or> expected_amplification (va_context_signals va) > 100))"
proof -
  have s: "set (select_target_regions set_to_list va p) = set (selected_regions va p)"
    using assms by (simp add: is_listing_def select_target_regions_def)
  show ?thesis unfolding s set_selected_regions by auto
qed

lemma content_signals_concept:
  "analyze_content_for_routing ''a concept'' =
     \<lparr>semantic_signals = 1, procedural_signals = 0, emotional_signals = 0,
      autonomic_signals = 0, content_length = 9, complexity_estimate = 1\<rparr>"
  by (simp add: analyze_content_for_routing_def keyword_score_def lower_def lower_char_def)

lemma content_signals_step:
  "analyze_content_for_routing ''a step'' =
     \<lparr>semantic_signals = 0, procedural_signals = 1, emotional_signals = 0,
      autonomic_signals = 0, content_length = 6, complexity_estimate = 1\<rparr>"
  by (simp add: analyze_content_for_routing_def keyword_score_def lower_def lower_char_def)

lemma context_signals_plain:
  "extract_context_signals (example_context n) =
     \<lparr>urgency = ''normal'', priority = 1 / 2, source_type = ''unknown'',
      expected_amplification = 1, confidence = (if n > 3 then 8 / 10 else 1 / 2)\<rparr>"
  by (simp add: extract_context_signals_def example_context_def context_len_def)

lemma select_concept:
  "select_target_regions (\<lambda>xs. xs)
     (example_analysis (example_packet ''p1'' ''a concept'' CONTEXTUAL (example_context 0)))
     (example_packet ''p1'' ''a concept'' CONTEXTUAL (example_context 0))
   = [''brainstem'', ''hippocampus'', ''neocortex'']"
  by (simp add: select_target_regions_def selected_regions_def example_analysis_def
      example_packet_def content_signals_concept context_signals_plain set_add_def)

theorem default_regions_witness:
  "is_listing (\<lambda>xs. xs) \<and>
   ''brainstem'' \<in> set (select_target_regions (\<lambda>xs. xs)
     (example_analysis (example_packet ''p1'' ''a concept'' CONTEXTUAL (example_context 0)))
     (example_packet ''p1'' ''a concept'' CONTEXTUAL (example_context 0))) \<and>
   ''hippocampus'' \<in> set (select_target_regions (\<lambda>xs. xs)
     (example_analysis (example_packet ''p1'' ''a concept'' CONTEXTUAL (example_context 0)))
     (example_packet ''p1'' ''a concept'' CONTEXTUAL (example_context 0)))"
proof -
  have h: "is_listing (\<lambda>xs. xs)" by (simp add: is_listing_def)
  from h default_regions[OF h,
      of "example_analysis (example_packet ''p1'' ''a concept'' CONTEXTUAL (example_context 0))"
         "example_packet ''p1'' ''a concept'' CONTEXTUAL (example_context 0)"]
  show ?thesis by blast
qed

text \<open>
  The priority and assessment tier is not always chosen: a contextual packet whose content
  mentions a concept, with an empty context, is routed to three regions without \<open>amygdala\<close>.
\<close>

theorem amygdala_not_default_counterexample:
  "select_target_regions (\<lambda>xs. xs)
     (example_analysis (example_packet ''p1'' ''a concept'' CONTEXTUAL (example_context 0)))
     (example_packet ''p1'' ''a concept'' CONTEXTUAL (example_context 0))
   = [''brainstem'', ''hippocampus'', ''neocortex''] \<and>
   ''amygdala'' \<notin> set (select_target_regions (\<lambda>xs. xs)
     (example_analysis (example_packet ''p1'' ''a concept'' CONTEXTUAL (example_context 0)))
     (example_packet ''p1'' ''a concept'' CONTEXTUAL (example_context 0)))"
  by (simp add: select_concept)

subsection \<open>Routing strategy\<close>

text \<open>
  Claim C7. \<open>_select_routing_strategy\<close> returns \<open>SELECTIVE_ROUTING\<close> only when the routing
  confidence is above 0.8; when the urgency is \<open>high\<close> or \<open>critical\<close>, or the confidence is at
  most 0.8, it returns \<open>PARALLEL_ALL\<close>. It returns no other strategy.
\<close>

theorem strategy_selection:
  "(select_routing_strategy va1 targets1 p1 = SELECTIVE_ROUTING \<longrightarrow>
      routing_confidence va1 > 8 / 10) \<and>
   (urgency (va_context_signals va2) \<in> {''high'', ''critical''} \<or>
    routing_confidence va2 \<le> 8 / 10 \<longrightarrow>
      select_routing_strategy va2 targets2 p2 = PARALLEL_ALL) \<and>
   select_routing_strategy va3 targets3 p3 \<in> {PARALLEL_ALL, SELECTIVE_ROUTING}"
  by (auto simp: select_routing_strategy_def Let_def split: if_splits)

theorem strategy_selection_witness:
  "select_routing_strategy
     (example_analysis (example_packet ''p1'' ''a concept'' CONTEXTUAL (example_context 4)))
     [''brainstem''] (example_packet ''p1'' ''a concept'' CONTEXTUAL (example_context 4))
     = SELECTIVE_ROUTING \<and>
   routing_confidence
     (example_analysis (example_packet ''p1'' ''a concept'' CONTEXTUAL (example_context 4)))
     > 8 / 10 \<and>
   urgency (va_context_signals
     (example_analysis (example_packet ''p2'' ''a concept'' CONTEXTUAL
        ((example_context 4)\<lparr>ctx_urgency := Some ''high''\<rparr>)))) \<in> {''high'', ''critical''} \<and>
   select_routing_strategy
     (example_analysis (example_packet ''p2'' ''a concept'' CONTEXTUAL
        ((example_context 4)\<lparr>ctx_urgency := Some ''high''\<rparr>)))
     [''brainstem''] (example_packet ''p2'' ''a concept'' CONTEXTUAL
        ((example_context 4)\<lparr>ctx_urgency := Some ''high''\<rparr>))
     = PARALLEL_ALL"
proof -
  let ?pa = "example_packet ''p1'' ''a concept'' CONTEXTUAL (example_context 4)"
  let ?pb = "example_packet ''p2'' ''a concept'' CONTEXTUAL
        ((example_context 4)\<lparr>ctx_urgency := Some ''high''\<rparr>)"
  have a: "select_routing_strategy (example_analysis ?pa) [''brainstem''] ?pa = SELECTIVE_ROUTING"
    by (simp add: select_routing_strategy_def example_analysis_def example_packet_def
        context_signals_plain)
  have b: "urgency (va_context_signals (example_analysis ?pb)) \<in> {''high'', ''critical''}"
    by (simp add: example_analysis_def example_packet_def extract_context_signals_def
        example_context_def context_len_def)
  note T = strategy_selection[of "example_analysis ?pa" "[''brainstem'']" ?pa
      "example_analysis ?pb" "[''brainstem'']" ?pb]
  from T a have c: "routing_confidence (example_analysis ?pa) > 8 / 10" by blast
  from T b have d: "select_routing_strategy (example_analysis ?pb) [''brainstem''] ?pb
      = PARALLEL_ALL" by blast
  from a c b d show ?thesis by (intro conjI)
qed

subsection \<open>The decision on a cache miss\<close>

lemma cleared_cache_misses:
  "(if optimization_enabled (clear_decision_cache s)
    then decision_cache (clear_decision_cache s) k else None) = None"
  by (simp add: clear_decision_cache_def)

lemma miss_is_error:
  assumes "(if optimization_enabled s then decision_cache s (cache_key p) else None) = None"
  shows "isl (fst (analyze_and_decide_routing f s p))"
  using assms
  by (simp add: analyze_and_decide_routing_def json_dumps_decision_def Let_def
      split: prod.splits sum.splits)

lemma example_vector_analysis:
  assumes "pattern_cache s CONTEXTUAL = None"
  shows "analyze_vector_properties s
          (example_packet ''p1'' ''a concept'' CONTEXTUAL (example_context 0))
     = (Inr (example_analysis
               (example_packet ''p1'' ''a concept'' CONTEXTUAL (example_context 0))),
        s\<lparr>pattern_cache := (pattern_cache s)(CONTEXTUAL \<mapsto> [])\<rparr>)"
  using assms
  by (simp add: analyze_vector_properties_def example_analysis_def example_packet_def
      count_nonzero_def match_historical_patterns_def default_patterns_def Let_def)

lemma example_computed_decision:
  "map_sum id (\<lambda>d. (target_regions d, routing_strategy d))
     (computed_decision (\<lambda>xs. xs)
        (example_analysis (example_packet ''p1'' ''a concept'' CONTEXTUAL (example_context 0)))
        (example_packet ''p1'' ''a concept'' CONTEXTUAL (example_context 0)))
     = Inr ([''brainstem'', ''hippocampus'', ''neocortex''], PARALLEL_ALL)"
  by (simp add: computed_decision_def select_concept select_routing_strategy_def
      estimate_processing_time_def region_times_def)
    (simp add: example_analysis_def example_packet_def context_signals_plain Let_def)

text \<open>
  Claim C5. The claim asks for two calls that each produce target tiers and a strategy. With
  the decision cache cleared, \<open>_analyze_and_decide_routing\<close> produces none: whatever the state
  and the packet, the call ends in an error. For a packet with four non-zero components, the
  content \<open>a concept\<close> and an empty context, the engine computes the decision (brainstem,
  hippocampus and neocortex, in parallel) and then raises \<open>TypeError\<close> while serialising it for
  the cache, and the cache stays empty.
\<close>

theorem routing_decision_not_returned:
  "isl (fst (analyze_and_decide_routing f (clear_decision_cache s) p)) \<and>
   map_sum id (\<lambda>d. (target_regions d, routing_strategy d))
     (computed_decision (\<lambda>xs. xs)
        (example_analysis (example_packet ''p1'' ''a concept'' CONTEXTUAL (example_context 0)))
        (example_packet ''p1'' ''a concept'' CONTEXTUAL (example_context 0)))
     = Inr ([''brainstem'', ''hippocampus'', ''neocortex''], PARALLEL_ALL) \<and>
   fst (analyze_and_decide_routing (\<lambda>xs. xs) (clear_decision_cache initial_thalamus_state)
          (example_packet ''p1'' ''a concept'' CONTEXTUAL (example_context 0)))
     = Inl (TypeError ''Object of type RoutingStrategy is not JSON serializable'') \<and>
   decision_cache
     (snd (analyze_and_decide_routing (\<lambda>xs. xs) (clear_decision_cache initial_thalamus_state)
             (example_packet ''p1'' ''a concept'' CONTEXTUAL (example_context 0))))
     (cache_key (example_packet ''p1'' ''a concept'' CONTEXTUAL (example_context 0))) = None"
proof -
  let ?p = "example_packet ''p1'' ''a concept'' CONTEXTUAL (example_context 0)"
  let ?s = "clear_decision_cache initial_thalamus_state"
  have a: "isl (fst (analyze_and_decide_routing f (clear_decision_cache s) p))"
    by (rule miss_is_error) (rule cleared_cache_misses)
  let ?s1 = "?s\<lparr>cache_misses := cache_misses ?s + 1\<rparr>"
  let ?t = "?s1\<lparr>pattern_cache := (pattern_cache ?s1)(CONTEXTUAL \<mapsto> [])\<rparr>"
  have av: "analyze_vector_properties ?s1 ?p = (Inr (example_analysis ?p), ?t)"
    by (rule example_vector_analysis)
      (simp add: clear_decision_cache_def initial_thalamus_state_def)
  have dc: "decision_cache ?t (cache_key ?p) = None"
    by (simp add: clear_decision_cache_def initial_thalamus_state_def)
  obtain d where cd: "computed_decision (\<lambda>xs. xs) (example_analysis ?p) ?p = Inr d"
    using example_computed_decision
    by (cases "computed_decision (\<lambda>xs. xs) (example_analysis ?p) ?p") auto
  have m: "(if optimization_enabled ?s then decision_cache ?s (cache_key ?p) else None) = None"
    by (rule cleared_cache_misses)
  have r: "analyze_and_decide_routing (\<lambda>xs. xs) ?s ?p
      = (Inl (TypeError ''Object of type RoutingStrategy is not JSON serializable''), ?t)"
    unfolding analyze_and_decide_routing_def m Let_def av
    by (simp add: cd json_dumps_decision_def)
  from a example_computed_decision r dc show ?thesis by (simp only: fst_conv snd_conv simp_thms)
qed

subsection \<open>The working-memory index\<close>

lemma distinct_zadd:
  "distinct (map fst z) \<Longrightarrow> distinct (map fst (zadd z m sc))"
  by (auto simp: zadd_def distinct_map_filter)

lemma length_zadd: "length (zadd z m sc) \<le> Suc (length z)"
  by (simp add: zadd_def le_SucI)

lemma zadd_nonempty: "zadd z m sc \<noteq> []"
  by (simp add: zadd_def)

lemma length_zrem:
  "z \<noteq> [] \<Longrightarrow> Suc (length (zremrangebyrank_0_0 z)) = length z"
  by (simp add: zremrangebyrank_0_0_def length_remove1 arg_min_list_in)

lemma distinct_map_remove1:
  "distinct (map f xs) \<Longrightarrow> distinct (map f (remove1 x xs))"
proof (induction xs)
  case Nil
  then show ?case by simp
next
  case (Cons a xs)
  have "set (remove1 x xs) \<subseteq> set xs" by (rule set_remove1_subset)
  then have "f ` set (remove1 x xs) \<subseteq> f ` set xs" by (rule image_mono)
  with Cons show ?case by auto
qed

lemma distinct_zrem:
  "distinct (map fst z) \<Longrightarrow> distinct (map fst (zremrangebyrank_0_0 z))"
  by (simp add: zremrangebyrank_0_0_def distinct_map_remove1)

lemma zrank_lowest:
  assumes "e \<in> set z"
  shows "snd (arg_min_list zrank_key z) \<le> snd e"
proof -
  from assms have ne: "z \<noteq> []" by auto
  have "zrank_key (arg_min_list zrank_key z) = Min (zrank_key ` set z)"
    using ne by (rule f_arg_min_list_f)
  then have "zrank_key (arg_min_list zrank_key z) \<le> zrank_key e"
    using assms by simp
  then show ?thesis by (auto simp: zrank_key_def less_eq_prod_def)
qed

lemma update_working_memory_frame:
  "memories (update_working_memory cfg i w s) = memories s \<and>
   weights (update_working_memory cfg i w s) = weights s \<and>
   weight_index (update_working_memory cfg i w s) = weight_index s"
  by (simp add: update_working_memory_def Let_def)

lemma update_working_memory_inv:
  assumes "distinct (map fst (working_memory s))"
    "int (zcard (working_memory s)) \<le> max_working_items cfg"
  shows "distinct (map fst (working_memory (update_working_memory cfg i w s))) \<and>
         int (zcard (working_memory (update_working_memory cfg i w s))) \<le> max_working_items cfg"
proof (cases "w \<ge> CONSCIOUS_THRESHOLD")
  case False
  then show ?thesis using assms by (simp add: update_working_memory_def)
next
  case True
  let ?z = "zadd (working_memory s) i w"
  have d: "distinct (map fst ?z)" using assms(1) by (rule distinct_zadd)
  show ?thesis
  proof (cases "int (zcard ?z) > max_working_items cfg")
    case over: True
    have "Suc (length (zremrangebyrank_0_0 ?z)) = length ?z"
      by (rule length_zrem) (rule zadd_nonempty)
    moreover have "length ?z \<le> Suc (length (working_memory s))" by (rule length_zadd)
    ultimately have "int (length (zremrangebyrank_0_0 ?z)) \<le> max_working_items cfg"
      using assms(2) by (simp add: zcard_def)
    then show ?thesis using True over d
      by (simp add: update_working_memory_def Let_def zcard_def distinct_zrem)
  next
    case False
    then show ?thesis using True d
      by (simp add: update_working_memory_def Let_def)
  qed
qed

lemma store_memory_working_memory:
  "working_memory (snd (store_memory cfg i now cont ctx md hint s)) =
     working_memory (update_working_memory cfg i (calculate_initial_weight cont ctx md hint) s)"
  by (simp add: store_memory_def update_working_memory_def Let_def)

lemma store_memory_inv:
  assumes "distinct (map fst (working_memory s))"
    "int (zcard (working_memory s)) \<le> max_working_items cfg"
  shows "distinct (map fst (working_memory (snd (store_memory cfg i now cont ctx md hint s)))) \<and>
         int (zcard (working_memory (snd (store_memory cfg i now cont ctx md hint s))))
           \<le> max_working_items cfg"
  unfolding store_memory_working_memory using assms by (rule update_working_memory_inv)

lemma run_stores_inv:
  "distinct (map fst (working_memory s)) \<Longrightarrow>
   int (zcard (working_memory s)) \<le> max_working_items cfg \<Longrightarrow>
   distinct (map fst (working_memory (run_stores cfg rs s))) \<and>
   int (zcard (working_memory (run_stores cfg rs s))) \<le> max_working_items cfg"
  unfolding run_stores_def
proof (induction rs arbitrary: s)
  case Nil
  then show ?case by simp
next
  case (Cons r rs)
  have "distinct (map fst (working_memory (store_request_apply cfg r s))) \<and>
        int (zcard (working_memory (store_request_apply cfg r s))) \<le> max_working_items cfg"
    unfolding store_request_apply_def using Cons.prems by (rule store_memory_inv)
  then show ?case using Cons.IH[of "store_request_apply cfg r s"] by simp
qed

lemma store_memory_frame:
  assumes "k \<noteq> i"
  shows "memories (snd (store_memory cfg i now cont ctx md hint s)) k = memories s k \<and>
         weights (snd (store_memory cfg i now cont ctx md hint s)) k = weights s k \<and>
         zscore (weight_index (snd (store_memory cfg i now cont ctx md hint s))) k
           = zscore (weight_index s) k"
  using assms
  by (simp add: store_memory_def update_working_memory_def Let_def zscore_def map_of_zadd)

text \<open>
  The bound is an invariant. If the working-memory index is a sorted set of at most
  \<open>max_working_items\<close> members, it still is after a \<open>store_memory\<close>, and so after every store
  of any sequence; from the empty index this needs only \<open>max_working_items \<ge> 0\<close>. When the
  insertion exceeds the bound, the member of rank 0, which has the least score in the index,
  is removed from the working-memory index. \<open>_update_working_memory\<close> changes nothing else, and
  a store leaves the memory record, the weight and the weight-index score of every other
  identifier as they were.
\<close>

theorem working_memory_bounded:
  assumes "distinct (map fst (working_memory s))"
    "int (zcard (working_memory s)) \<le> max_working_items cfg"
  shows
    "int (zcard (working_memory (snd (store_memory cfg i now cont ctx md hint s))))
        \<le> max_working_items cfg \<and>
     distinct (map fst (working_memory (snd (store_memory cfg i now cont ctx md hint s)))) \<and>
     int (zcard (working_memory (run_stores cfg rs s))) \<le> max_working_items cfg \<and>
     (0 \<le> max_working_items cfg \<longrightarrow>
        int (zcard (working_memory (run_stores cfg rs initial_hippo_state)))
          \<le> max_working_items cfg) \<and>
     (CONSCIOUS_THRESHOLD \<le> w \<and>
      max_working_items cfg < int (zcard (zadd (working_memory s) i w)) \<longrightarrow>
        working_memory (update_working_memory cfg i w s) =
          remove1 (arg_min_list zrank_key (zadd (working_memory s) i w))
            (zadd (working_memory s) i w) \<and>
        (\<forall>e \<in> set (zadd (working_memory s) i w).
           snd (arg_min_list zrank_key (zadd (working_memory s) i w)) \<le> snd e)) \<and>
     memories (update_working_memory cfg i w s) = memories s \<and>
     weights (update_working_memory cfg i w s) = weights s \<and>
     weight_index (update_working_memory cfg i w s) = weight_index s \<and>
     (k \<noteq> i \<longrightarrow>
        memories (snd (store_memory cfg i now cont ctx md hint s)) k = memories s k \<and>
        weights (snd (store_memory cfg i now cont ctx md hint s)) k = weights s k \<and>
        zscore (weight_index (snd (store_memory cfg i now cont ctx md hint s))) k
          = zscore (weight_index s) k)"
proof -
  note a = store_memory_inv[OF assms, of i now cont ctx md hint]
  note b = run_stores_inv[OF assms, of rs]
  have c: "0 \<le> max_working_items cfg \<longrightarrow>
        int (zcard (working_memory (run_stores cfg rs initial_hippo_state)))
          \<le> max_working_items cfg"
  proof
    assume "0 \<le> max_working_items cfg"
    then have "int (zcard (working_memory initial_hippo_state)) \<le> max_working_items cfg"
      by (simp add: initial_hippo_state_def zcard_def)
    moreover have "distinct (map fst (working_memory initial_hippo_state))"
      by (simp add: initial_hippo_state_def)
    ultimately show "int (zcard (working_memory (run_stores cfg rs initial_hippo_state)))
          \<le> max_working_items cfg"
      using run_stores_inv by blast
  qed
  have d: "CONSCIOUS_THRESHOLD \<le> w \<and>
      max_working_items cfg < int (zcard (zadd (working_memory s) i w)) \<longrightarrow>
        working_memory (update_working_memory cfg i w s) =
          remove1 (arg_min_list zrank_key (zadd (working_memory s) i w))
            (zadd (working_memory s) i w) \<and>
        (\<forall>e \<in> set (zadd (working_memory s) i w).
           snd (arg_min_list zrank_key (zadd (working_memory s) i w)) \<le> snd e)"
    by (auto simp: update_working_memory_def Let_def zremrangebyrank_0_0_def zadd_nonempty
        intro: zrank_lowest)
  note e = update_working_memory_frame[of cfg i w s]
  have f: "k \<noteq> i \<longrightarrow>
        memories (snd (store_memory cfg i now cont ctx md hint s)) k = memories s k \<and>
        weights (snd (store_memory cfg i now cont ctx md hint s)) k = weights s k \<and>
        zscore (weight_index (snd (store_memory cfg i now cont ctx md hint s))) k
          = zscore (weight_index s) k"
    using store_memory_frame by blast
  from a b c d e f show ?thesis by blast
qed

lemma example_store:
  "working_memory (snd (store_memory example_small_config ''c'' 0 ''note''
       \<lparr>critical = False, urgent = False\<rparr> \<lparr>importance = Some 0\<rparr> 1 example_full_state))
     = [(''b'', 95 / 100), (''c'', 1)]"
  by (simp add: store_memory_def update_working_memory_def calculate_initial_weight_def
      example_small_config_def default_hippo_config_def example_full_state_def
      initial_hippo_state_def CONSCIOUS_THRESHOLD_def zadd_def zcard_def
      zremrangebyrank_0_0_def zrank_key_def less_eq_prod_def Let_def)

theorem working_memory_bounded_witness:
  "distinct (map fst (working_memory example_full_state)) \<and>
   int (zcard (working_memory example_full_state)) \<le> max_working_items example_small_config \<and>
   0 \<le> max_working_items example_small_config \<and>
   CONSCIOUS_THRESHOLD \<le> 1 \<and>
   max_working_items example_small_config
     < int (zcard (zadd (working_memory example_full_state) ''c'' 1)) \<and>
   ''a'' \<noteq> ''c'' \<and>
   working_memory (snd (store_memory example_small_config ''c'' 0 ''note''
       \<lparr>critical = False, urgent = False\<rparr> \<lparr>importance = Some 0\<rparr> 1 example_full_state))
     = [(''b'', 95 / 100), (''c'', 1)] \<and>
   int (zcard (working_memory (snd (store_memory example_small_config ''c'' 0 ''note''
       \<lparr>critical = False, urgent = False\<rparr> \<lparr>importance = Some 0\<rparr> 1 example_full_state))))
     \<le> max_working_items example_small_config \<and>
   working_memory (update_working_memory example_small_config ''c'' 1 example_full_state) =
     remove1 (arg_min_list zrank_key (zadd (working_memory example_full_state) ''c'' 1))
       (zadd (working_memory example_full_state) ''c'' 1) \<and>
   memories (snd (store_memory example_small_config ''c'' 0 ''note''
       \<lparr>critical = False, urgent = False\<rparr> \<lparr>importance = Some 0\<rparr> 1 example_full_state)) ''a''
     = memories example_full_state ''a'' \<and>
   memories example_full_state ''a'' = Some (example_entry (9 / 10))"
proof -
  have h: "distinct (map fst (working_memory example_full_state))"
    "int (zcard (working_memory example_full_state)) \<le> max_working_items example_small_config"
    by (simp_all add: example_full_state_def example_small_config_def initial_hippo_state_def
        zcard_def)
  have g: "0 \<le> max_working_items example_small_config" "CONSCIOUS_THRESHOLD \<le> 1"
    "max_working_items example_small_config
       < int (zcard (zadd (working_memory example_full_state) ''c'' 1))"
    "''a'' \<noteq> ''c''"
    "memories example_full_state ''a'' = Some (example_entry (9 / 10))"
    by (simp_all add: example_full_state_def example_small_config_def initial_hippo_state_def
        zcard_def zadd_def CONSCIOUS_THRESHOLD_def)
  note T = working_memory_bounded[OF h, of "''c''" 0 "''note''"
      "\<lparr>critical = False, urgent = False\<rparr>" "\<lparr>importance = Some 0\<rparr>" 1 "[]" 1 "''a''"]
  from T have a: "int (zcard (working_memory (snd (store_memory example_small_config ''c'' 0
       ''note'' \<lparr>critical = False, urgent = False\<rparr> \<lparr>importance = Some 0\<rparr> 1
       example_full_state)))) \<le> max_working_items example_small_config"
    by blast
  from T g(2,3) have b:
    "working_memory (update_working_memory example_small_config ''c'' 1 example_full_state) =
     remove1 (arg_min_list zrank_key (zadd (working_memory example_full_state) ''c'' 1))
       (zadd (working_memory example_full_state) ''c'' 1)"
    by blast
  from T g(4) have c: "memories (snd (store_memory example_small_config ''c'' 0 ''note''
       \<lparr>critical = False, urgent = False\<rparr> \<lparr>importance = Some 0\<rparr> 1 example_full_state)) ''a''
     = memories example_full_state ''a''"
    by blast
  from h g(1,2,3,4) example_store a b c g(5) show ?thesis by (intro conjI)
qed

lemma example_eviction_state_value:
  "example_eviction_state =
     \<lparr>memories = [''a'' \<mapsto> recall_entry example_small_config 10 True
                               (stored_entry ''a'' (113 / 125)),
                  ''b'' \<mapsto> stored_entry ''b'' (477 / 500)],
      weights = [''a'' \<mapsto> 1, ''b'' \<mapsto> 477 / 500],
      weight_index = [(''b'', 477 / 500), (''a'', 1)],
      working_memory = [(''a'', 113 / 125), (''b'', 477 / 500)],
      stat_stores = 2, stat_retrievals = 1, stat_weight_decays = 0, stat_weight_boosts = 1\<rparr>"
  by (simp add: example_eviction_state_def run_stores_def store_request_apply_def
      example_request_def store_memory_def update_working_memory_def
      calculate_initial_weight_def recall_memory_def recall_entry_def
      update_weight_tracking_def example_small_config_def default_hippo_config_def
      initial_hippo_state_def CONSCIOUS_THRESHOLD_def zadd_def zcard_def stored_entry_def
      Let_def fun_upd_twist)

text \<open>
  Claim C10. The claim and the comment of \<open>_update_working_memory\<close> (remove the lowest-weight
  item) ask for the eviction of the entry with the lowest weight. The scores of the
  working-memory index are the weights at admission: a recall or a decay pass changes the
  memory record, the weight key and the weight index, and not the working-memory score. With
  room for two entries, after storing \<open>a\<close> (weight 0.904) and \<open>b\<close> (weight 0.954) and recalling
  \<open>a\<close>, which raises its weight to 1.0, the store of \<open>c\<close> (weight 1.0) removes \<open>a\<close> from the
  working-memory index and keeps \<open>b\<close>, whose weight is the lowest. The record of \<open>a\<close> and
  its weight-index score stay as they were.
\<close>

theorem stale_score_eviction:
  "working_memory example_eviction_state = [(''a'', 113 / 125), (''b'', 477 / 500)] \<and>
   map_option weight (memories example_eviction_state ''a'') = Some 1 \<and>
   map_option weight (memories example_eviction_state ''b'') = Some (477 / 500) \<and>
   working_memory (snd (store_memory example_small_config ''c'' 20 ''note''
       \<lparr>critical = False, urgent = False\<rparr> \<lparr>importance = Some 0\<rparr> 1 example_eviction_state))
     = [(''b'', 477 / 500), (''c'', 1)] \<and>
   map_option weight (memories (snd (store_memory example_small_config ''c'' 20 ''note''
       \<lparr>critical = False, urgent = False\<rparr> \<lparr>importance = Some 0\<rparr> 1 example_eviction_state))
       ''a'') = Some 1 \<and>
   map_option weight (memories (snd (store_memory example_small_config ''c'' 20 ''note''
       \<lparr>critical = False, urgent = False\<rparr> \<lparr>importance = Some 0\<rparr> 1 example_eviction_state))
       ''b'') = Some (477 / 500) \<and>
   zscore (weight_index (snd (store_memory example_small_config ''c'' 20 ''note''
       \<lparr>critical = False, urgent = False\<rparr> \<lparr>importance = Some 0\<rparr> 1 example_eviction_state)))
       ''a'' = Some 1 \<and>
   int (zcard (working_memory (snd (store_memory example_small_config ''c'' 20 ''note''
       \<lparr>critical = False, urgent = False\<rparr> \<lparr>importance = Some 0\<rparr> 1 example_eviction_state))))
     \<le> max_working_items example_small_config"
  unfolding example_eviction_state_value
  by (simp add: store_memory_def update_working_memory_def calculate_initial_weight_def
      example_small_config_def default_hippo_config_def CONSCIOUS_THRESHOLD_def zadd_def
      zcard_def zremrangebyrank_0_0_def zrank_key_def less_eq_prod_def zscore_def
      recall_entry_def stored_entry_def Let_def)

subsection \<open>Storing through the manager\<close>

lemma str_nat_digit: "n < 10 \<Longrightarrow> str_nat n = [digit_char n]"
  by (subst str_nat.simps) simp

text \<open>
  Claim C8, as the code has it. The manager's \<open>store_memory\<close> has no check on the content: for
  every content, empty or not, it writes the entry (stripped content, weight 1.0, expiry after
  300 seconds) under \<open>working_memory:mem_<microseconds>\<close> and returns the identifier when the
  working-memory write succeeds; when that write raises, the exception reaches the caller and
  the state is unchanged. No \<open>InvalidInput\<close> error exists.
\<close>

theorem store_without_validation:
  "fst (manager_store_memory True now micros cont ctype ctx s) = Inr (''mem_'' @ str_nat micros) \<and>
   map_option (\<lambda>(e, t). (me_id e, me_content e, me_weight e, t))
     (working_store (snd (manager_store_memory True now micros cont ctype ctx s))
        (''working_memory:mem_'' @ str_nat micros))
     = Some (''mem_'' @ str_nat micros, strip cont, 1, now + 300) \<and>
   manager_store_memory False now micros cont ctype ctx s = (Inl (StoreError ''hippocampus''), s)"
  by (simp add: manager_store_memory_def hippocampus_store_def brainstem_preprocess_def Let_def)

text \<open>The empty content is stored like any other and gets an identifier.\<close>

theorem store_empty_content_counterexample:
  "fst (manager_store_memory True 0 5 [] ''text'' None empty_manager_state) = Inr ''mem_5'' \<and>
   map_option (\<lambda>(e, t). me_content e)
     (working_store (snd (manager_store_memory True 0 5 [] ''text'' None empty_manager_state))
        ''working_memory:mem_5'') = Some []"
  by (simp add: manager_store_memory_def hippocampus_store_def brainstem_preprocess_def Let_def
      str_nat_digit digit_char_def strip_def empty_manager_state_def)

subsection \<open>Ranking\<close>














subsection \<open>Fan-out with failing regions\<close>





















end
